theory Spec2Isabelle
  imports Complex_Main "HOL-Library.Sublist"
begin

section \<open>Strings\<close>

text \<open>
  A JavaScript string is modelled as a \<open>string\<close>: one \<open>char\<close> per UTF-16 code unit,
  restricted to the code units below 256. \<open>length\<close> is the \<open>.length\<close> of the source.
  A string of the model may have any length.
\<close>

text \<open>The white space of \<open>String.prototype.trim\<close> and of the regular expression class
  \<open>\s\<close>, among the code units below 256: tab, line feed, vertical tab, form feed,
  carriage return, space and no-break space.\<close>

definition isWhitespace :: "char \<Rightarrow> bool" where
  "isWhitespace c \<longleftrightarrow>
     c = CHR 0x09 \<or> c = CHR 0x0A \<or> c = CHR 0x0B \<or> c = CHR 0x0C \<or> c = CHR 0x0D
     \<or> c = CHR '' '' \<or> c = CHR 0xA0"

definition trim :: "string \<Rightarrow> string" where
  "trim s = rev (dropWhile isWhitespace (rev (dropWhile isWhitespace s)))"

text \<open>\<open>s.replace(/[class]/g, r)\<close> for a regular expression that matches one character of a
  class: every match \<open>c\<close> is replaced by \<open>r c\<close> (the replacement text, which may refer to the
  match as \<open>$1\<close>), every other character is kept. Replaced text is not scanned again.\<close>

fun replaceAll :: "(char \<Rightarrow> bool) \<Rightarrow> (char \<Rightarrow> string) \<Rightarrow> string \<Rightarrow> string" where
  "replaceAll m r [] = []"
| "replaceAll m r (c # cs) = (if m c then r c @ replaceAll m r cs else c # replaceAll m r cs)"

section \<open>domUtils.ts: escapeMarkdownCharacters\<close>

text \<open>The character class \<open>[\\`*_{}[\]#+!|]\<close> of the last replacement.\<close>

definition markdownSpecial :: "char \<Rightarrow> bool" where
  "markdownSpecial c \<longleftrightarrow> c = CHR 0x5C \<or> c \<in> set ''`*_{}[]#+!|''"

definition escapeMarkdownCharacters :: "string \<Rightarrow> bool \<Rightarrow> string" where
  "escapeMarkdownCharacters text isInlineCode =
     (if isInlineCode \<or> trim text = [] then text
      else
        let escapedText =
              replaceAll (\<lambda>c. c = CHR ''>'') (\<lambda>_. ''&gt;'')
                (replaceAll (\<lambda>c. c = CHR ''<'') (\<lambda>_. ''&lt;'')
                  (replaceAll (\<lambda>c. c = CHR ''&'') (\<lambda>_. ''&amp;'') text))
        in replaceAll markdownSpecial (\<lambda>c. [CHR 0x5C, c]) escapedText)"

text \<open>The net effect of the four replacements on one character of the input, and the
  characters that they change.\<close>

definition escapeChar :: "char \<Rightarrow> string" where
  "escapeChar c =
     (if c = CHR ''&'' then ''&amp;''
      else if c = CHR ''<'' then ''&lt;''
      else if c = CHR ''>'' then ''&gt;''
      else if markdownSpecial c then [CHR 0x5C, c]
      else [c])"


text \<open>\<open>s.startsWith(p)\<close>, \<open>s.includes(sub)\<close> and \<open>s.toLowerCase()\<close> (on the letters A to Z).\<close>

definition startsWith :: "string \<Rightarrow> string \<Rightarrow> bool" where
  "startsWith s p = prefix p s"

fun includes_str :: "string \<Rightarrow> string \<Rightarrow> bool" where
  "includes_str [] sub = (sub = [])"
| "includes_str (c # cs) sub = (prefix sub (c # cs) \<or> includes_str cs sub)"

definition toLowerChar :: "char \<Rightarrow> char" where
  "toLowerChar c =
     (case map_of (zip ''ABCDEFGHIJKLMNOPQRSTUVWXYZ'' ''abcdefghijklmnopqrstuvwxyz'') c of
        Some d \<Rightarrow> d
      | None \<Rightarrow> c)"

definition toLowerCase :: "string \<Rightarrow> string" where
  "toLowerCase s = map toLowerChar s"

section \<open>The DOM\<close>

text \<open>
  The properties of an \<open>Element\<close> that the source reads. \<open>id_attr\<close> is \<open>element.id\<close>;
  \<open>href_prop\<close>, \<open>src_prop\<close>, \<open>alt_prop\<close>, \<open>poster_prop\<close> and \<open>controls_prop\<close> are the
  IDL properties \<open>href\<close>, \<open>src\<close>, \<open>alt\<close>, \<open>poster\<close> and \<open>controls\<close>, with the types that
  \<open>HTMLElementTagNameMap\<close> gives them; \<open>href_prop\<close> is \<open>None\<close> where \<open>typeof href\<close> is not
  \<open>'string'\<close> (the anchor of an SVG image). \<open>attributes\<close> is what \<open>getAttribute\<close> and
  \<open>hasAttribute\<close> read; \<open>parentNodeName\<close> is \<open>parentNode?.nodeName\<close>.
\<close>

record element =
  tagName :: string
  id_attr :: string
  classList :: "string list"
  attributes :: "(string \<times> string) list"
  href_prop :: "string option"
  src_prop :: string
  alt_prop :: string
  poster_prop :: string
  controls_prop :: bool
  isHTMLElement :: bool
  offsetWidth :: int
  offsetHeight :: int
  parentNodeName :: "string option"

text \<open>
  A DOM node is a text node, an element, or a node of another kind (a comment, a doctype).
  An element carries its own properties, the child nodes of its shadow root if it has one,
  the nodes that \<open>assignedNodes()\<close> returns (for a \<open>slot\<close>), and its child nodes.
\<close>

datatype dnode =
    DomText string
  | DomOther
  | DomElement element "dnode list option" "dnode list" "dnode list"

fun isElement :: "dnode \<Rightarrow> bool" where
  "isElement (DomElement _ _ _ _) = True"
| "isElement _ = False"

fun isTextNode :: "dnode \<Rightarrow> bool" where
  "isTextNode (DomText _) = True"
| "isTextNode _ = False"

fun childNodes :: "dnode \<Rightarrow> dnode list" where
  "childNodes (DomElement _ _ _ cs) = cs"
| "childNodes _ = []"

fun props :: "dnode \<Rightarrow> element option" where
  "props (DomElement e _ _ _) = Some e"
| "props _ = None"

text \<open>The lower-case tag name of an element node (\<open>tagName.toLowerCase()\<close>).\<close>

fun lowerTag :: "dnode \<Rightarrow> string" where
  "lowerTag (DomElement e _ _ _) = toLowerCase (tagName e)"
| "lowerTag _ = []"

text \<open>\<open>textContent\<close>: the text of all descendant text nodes, in document order.\<close>

fun textContent :: "dnode \<Rightarrow> string" where
  "textContent (DomText s) = s"
| "textContent DomOther = []"
| "textContent (DomElement _ _ _ cs) = concat (map textContent cs)"

text \<open>The descendant elements of a node in document order, as \<open>getElementsByTagName\<close> and
  \<open>querySelectorAll\<close> walk them: shadow trees are not entered.\<close>

fun descendants :: "dnode \<Rightarrow> dnode list"
  and descendantsOfList :: "dnode list \<Rightarrow> dnode list" where
  "descendants (DomElement _ _ _ cs) = descendantsOfList cs"
| "descendants (DomText _) = []"
| "descendants DomOther = []"
| "descendantsOfList [] = []"
| "descendantsOfList (c # cs) =
     (if isElement c then c # descendants c else []) @ descendantsOfList cs"

text \<open>Elements are matched by their lower-case tag name, as an HTML document does.\<close>

definition getElementsByTagName :: "string \<Rightarrow> dnode \<Rightarrow> dnode list" where
  "getElementsByTagName name e = filter (\<lambda>d. lowerTag d = name) (descendants e)"

definition getAttribute :: "dnode \<Rightarrow> string \<Rightarrow> string option" where
  "getAttribute e name = (case props e of Some p \<Rightarrow> map_of (attributes p) name | None \<Rightarrow> None)"

definition hasAttribute :: "dnode \<Rightarrow> string \<Rightarrow> bool" where
  "hasAttribute e name \<longleftrightarrow> getAttribute e name \<noteq> None"

section \<open>domUtils.ts: the main-content locator\<close>

subsection \<open>calculateScore\<close>

definition highImpactAttributes :: "string list" where
  "highImpactAttributes = [''article'', ''content'', ''main-container'', ''main'', ''main-content'']"

definition highImpactTags :: "string list" where
  "highImpactTags = [''article'', ''main'', ''section'']"

text \<open>The test of the \<open>forEach\<close> over the vocabulary:
  \<open>element.classList.contains(attr) || element.id.includes(attr)\<close>.\<close>

definition hasHighImpactAttribute :: "element \<Rightarrow> string \<Rightarrow> bool" where
  "hasHighImpactAttribute p attr \<longleftrightarrow> attr \<in> set (classList p) \<or> includes_str (id_attr p) attr"

text \<open>The loop over the vocabulary, started from the score so far.\<close>

definition highImpactAttributeScore :: "element \<Rightarrow> int \<Rightarrow> int" where
  "highImpactAttributeScore p score =
     fold (\<lambda>attr score. if hasHighImpactAttribute p attr then score + 10 else score)
       highImpactAttributes score"

text \<open>
  \<open>calculateLinkDensity\<close> divides two lengths. The quotient is a rational number here and a
  double in the source; the only use of it is the comparison with \<open>0.3\<close>, and for every
  length that a string of the source can have, the rounded quotient is below the double
  \<open>0.3\<close> exactly when the quotient is below three tenths.
\<close>

definition calculateLinkDensity :: "dnode \<Rightarrow> rat" where
  "calculateLinkDensity element =
     (let linkLength = fold (\<lambda>link sum. sum + length (textContent link))
                         (getElementsByTagName ''a'' element) 0;
          textLength = (if length (textContent element) = 0 then 1 else length (textContent element))
      in of_nat linkLength / of_nat textLength)"

fun calculateScore :: "dnode \<Rightarrow> int" where
  "calculateScore (DomElement p sh asg cs) =
     (let element = DomElement p sh asg cs;
          score = 0;
          score = highImpactAttributeScore p score;
          score = (if toLowerCase (tagName p) \<in> set highImpactTags then score + 5 else score);
          paragraphCount = int (length (getElementsByTagName ''p'' element));
          paragraphScore = min paragraphCount 5;
          score = (if paragraphScore > 0 then score + paragraphScore else score);
          textContentLength = int (length (trim (textContent element)));
          score = (if textContentLength > 200
                   then score + min (textContentLength div 200) 5 else score);
          linkDensity = calculateLinkDensity element;
          score = (if linkDensity < 3 / 10 then score + 5 else score);
          score = (if hasAttribute element ''data-main'' \<or> hasAttribute element ''data-content''
                   then score + 10 else score);
          score = (case getAttribute element ''role'' of
                     Some role \<Rightarrow> if includes_str role ''main'' then score + 10 else score
                   | None \<Rightarrow> score)
      in score)"
| "calculateScore _ = 0"

subsection \<open>collectCandidates and detectMainContent\<close>

text \<open>
  An element of a document is referred to by its path, the child indices from the root of
  the tree down to it, together with the node found there. Two references are the same
  element exactly when their paths are equal, and \<open>a.contains(b)\<close> (which holds for
  \<open>a = b\<close> too) is the prefix order on paths.
\<close>

type_synonym eref = "nat list \<times> dnode"

definition contains :: "eref \<Rightarrow> eref \<Rightarrow> bool" where
  "contains a b = prefix (fst a) (fst b)"

fun collectCandidates :: "eref \<Rightarrow> int \<Rightarrow> eref list"
  and collectChildren :: "nat list \<Rightarrow> nat \<Rightarrow> dnode list \<Rightarrow> int \<Rightarrow> eref list" where
  "collectCandidates (path, DomElement p sh asg cs) minScore =
     (if calculateScore (DomElement p sh asg cs) \<ge> minScore
      then [(path, DomElement p sh asg cs)] else [])
     @ collectChildren path 0 cs minScore"
| "collectCandidates (path, DomText _) minScore = []"
| "collectCandidates (path, DomOther) minScore = []"
| "collectChildren path i [] minScore = []"
| "collectChildren path i (c # cs) minScore =
     (if isElement c then collectCandidates (path @ [i], c) minScore else [])
     @ collectChildren path (Suc i) cs minScore"

text \<open>
  \<open>candidates.sort((a, b) => calculateScore(b) - calculateScore(a))\<close>: the sort of the
  source is stable, so its result is the stable sort by descending score.
\<close>

definition sortCandidates :: "eref list \<Rightarrow> eref list" where
  "sortCandidates candidates = sort_key (\<lambda>c. - calculateScore (snd c)) candidates"

text \<open>The test \<open>candidates.some((otherCandidate, j) => j !== i &&
  otherCandidate.contains(candidates[i]))\<close>.\<close>

definition containedInOther :: "eref list \<Rightarrow> nat \<Rightarrow> bool" where
  "containedInOther candidates i \<longleftrightarrow>
     list_ex (\<lambda>j. j \<noteq> i \<and> contains (candidates ! j) (candidates ! i)) [0..<length candidates]"

text \<open>One turn of the loop over \<open>i = 1, ..., candidates.length - 1\<close>.\<close>

definition bestStep :: "eref list \<Rightarrow> nat \<Rightarrow> eref \<Rightarrow> eref" where
  "bestStep candidates i bestIndependentCandidate =
     (if \<not> containedInOther candidates i
      then (if calculateScore (snd (candidates ! i))
                 > calculateScore (snd bestIndependentCandidate)
            then candidates ! i else bestIndependentCandidate)
      else bestIndependentCandidate)"

definition detectMainContent :: "eref \<Rightarrow> eref" where
  "detectMainContent rootElement =
     (let minScore = 20;
          candidates = collectCandidates rootElement minScore
      in if length candidates = 0 then rootElement
         else
           let candidates = sortCandidates candidates
           in fold (bestStep candidates) [1..<length candidates] (candidates ! 0))"

subsection \<open>findMainContent\<close>

text \<open>
  A document is given by its document element. \<open>document.body\<close> is the first child of the
  \<open>html\<close> element that is a \<open>body\<close> or a \<open>frameset\<close>; \<open>document.querySelector('main')\<close> is
  the first \<open>main\<close> element of the document in document order.
\<close>

record document =
  documentElement :: dnode

fun firstBody :: "nat \<Rightarrow> dnode list \<Rightarrow> eref option" where
  "firstBody i [] = None"
| "firstBody i (c # cs) =
     (if isElement c \<and> (lowerTag c = ''body'' \<or> lowerTag c = ''frameset'') then Some ([i], c)
      else firstBody (Suc i) cs)"

definition body :: "document \<Rightarrow> eref option" where
  "body doc =
     (if lowerTag (documentElement doc) = ''html''
      then firstBody 0 (childNodes (documentElement doc)) else None)"

text \<open>The elements of a subtree with their paths, the root first, in document order.\<close>

fun elementsWithPaths :: "eref \<Rightarrow> eref list"
  and elementsOfChildren :: "nat list \<Rightarrow> nat \<Rightarrow> dnode list \<Rightarrow> eref list" where
  "elementsWithPaths (path, DomElement p sh asg cs) =
     (path, DomElement p sh asg cs) # elementsOfChildren path 0 cs"
| "elementsWithPaths (path, DomText _) = []"
| "elementsWithPaths (path, DomOther) = []"
| "elementsOfChildren path i [] = []"
| "elementsOfChildren path i (c # cs) =
     elementsWithPaths (path @ [i], c) @ elementsOfChildren path (Suc i) cs"

definition querySelector :: "eref \<Rightarrow> string \<Rightarrow> eref option" where
  "querySelector rootElement name =
     List.find (\<lambda>e. lowerTag (snd e) = name) (elementsWithPaths rootElement)"

definition findMainContent :: "document \<Rightarrow> eref" where
  "findMainContent doc =
     (case querySelector ([], documentElement doc) ''main'' of
        Some mainElement \<Rightarrow> mainElement
      | None \<Rightarrow>
          (case body doc of
             None \<Rightarrow> ([], documentElement doc)
           | Some b \<Rightarrow> detectMainContent b))"

section \<open>Numbers\<close>

text \<open>
  A number of the source is a double. The numbers that the code modelled here computes
  with are the spans of table cells, the column counters of the table loops and the
  results of \<open>Number.parseInt\<close>. The model has the finite numbers as rationals, and \<open>NaN\<close>,
  \<open>Infinity\<close> and \<open>-Infinity\<close>; the zero stands for both zeros of the source, which no
  operation used here tells apart. A sum of finite numbers is exact in the model: it is
  the sum of the source whenever the exact sum is a double again, as it is for integers
  as long as the sum is at most \<open>2^53\<close> in magnitude.
\<close>

datatype number = Num rat | NaN | Infinity | MinusInfinity

fun numAdd :: "number \<Rightarrow> number \<Rightarrow> number" where
  "numAdd (Num a) (Num b) = Num (a + b)"
| "numAdd NaN _ = NaN"
| "numAdd _ NaN = NaN"
| "numAdd Infinity MinusInfinity = NaN"
| "numAdd MinusInfinity Infinity = NaN"
| "numAdd Infinity _ = Infinity"
| "numAdd _ Infinity = Infinity"
| "numAdd MinusInfinity _ = MinusInfinity"
| "numAdd _ MinusInfinity = MinusInfinity"

text \<open>\<open>a < b\<close>, which is false as soon as one side is \<open>NaN\<close>.\<close>

fun numLess :: "number \<Rightarrow> number \<Rightarrow> bool" where
  "numLess (Num a) (Num b) = (a < b)"
| "numLess NaN _ = False"
| "numLess _ NaN = False"
| "numLess MinusInfinity MinusInfinity = False"
| "numLess MinusInfinity _ = True"
| "numLess _ MinusInfinity = False"
| "numLess Infinity _ = False"
| "numLess _ Infinity = True"

text \<open>The truth value of a number in a condition and under \<open>||\<close> and \<open>&&\<close>: zero and \<open>NaN\<close>
  are false.\<close>

fun isTruthy :: "number \<Rightarrow> bool" where
  "isTruthy (Num q) = (q \<noteq> 0)"
| "isTruthy NaN = False"
| "isTruthy Infinity = True"
| "isTruthy MinusInfinity = True"

text \<open>\<open>Math.max(...values)\<close>: \<open>-Infinity\<close> for no value, \<open>NaN\<close> if a value is \<open>NaN\<close>.\<close>

definition mathMax :: "number list \<Rightarrow> number" where
  "mathMax values =
     fold (\<lambda>v m. if m = NaN \<or> v = NaN then NaN else if numLess m v then v else m)
       values MinusInfinity"

text \<open>
  The double nearest to an integer, ties to the even significand: the integers of at most
  53 bits are doubles; a longer one keeps its 53 leading bits, rounded, and overflows to
  an infinity from \<open>2^1024\<close> on.
\<close>

function bitLength :: "int \<Rightarrow> nat" where
  "bitLength n = (if n \<le> 0 then 0 else Suc (bitLength (n div 2)))"
  by pat_completeness auto
termination
  by (relation "measure nat") auto

declare bitLength.simps [simp del]

definition roundToDouble :: "int \<Rightarrow> number" where
  "roundToDouble n =
     (let a = \<bar>n\<bar>
      in if bitLength a \<le> 53 then Num (of_int n)
         else
           let e = bitLength a - 53;
               q = a div 2 ^ e;
               r = a mod 2 ^ e;
               q = (if 2 * r > 2 ^ e \<or> (2 * r = 2 ^ e \<and> odd q) then q + 1 else q);
               v = q * 2 ^ e
           in if bitLength v > 1024 then (if n < 0 then MinusInfinity else Infinity)
              else Num (of_int (if n < 0 then - v else v)))"

section \<open>markdownTypes.ts: the semantic AST\<close>

text \<open>
  A value of JSON-LD data is given by its JSON text, which is what \<open>JSON.stringify\<close> makes
  of it; the code modelled here does not look into it.
\<close>

datatype json = Json string

record metaContent =
  standard :: "(string \<times> string) list option"
  openGraph :: "(string \<times> string) list option"
  twitter :: "(string \<times> string) list option"
  jsonLd :: "(string \<times> json) list list option"

text \<open>
  A node of the AST. A content of type \<open>string | Node[]\<close> is a \<open>content\<close>; a list item is
  given by its content, a table row by its cells. An optional field is an \<open>option\<close>.
  \<open>colspan\<close> and \<open>rowspan\<close> are numbers.
\<close>

datatype node =
    TextNode string
  | BoldNode content
  | ItalicNode content
  | StrikethroughNode content
  | HeadingNode nat content
  | LinkNode string "node list"
  | ImageNode string "string option"
  | VideoNode string "string option" "bool option"
  | ListNode bool "node list list"
  | TableNode "cell list list" "string list option"
  | CodeNode string "string option" bool
  | BlockquoteNode "node list"
  | SemanticHtmlNode string "node list"
  | CustomNode string
  | MetaDataNode metaContent
and content = Str string | Nodes "node list"
and cell = TableCellNode content "string option" "number option" "number option"

fun cellContent :: "cell \<Rightarrow> content" where
  "cellContent (TableCellNode c _ _ _) = c"

fun colId :: "cell \<Rightarrow> string option" where
  "colId (TableCellNode _ i _ _) = i"

fun colspan :: "cell \<Rightarrow> number option" where
  "colspan (TableCellNode _ _ c _) = c"

fun rowspan :: "cell \<Rightarrow> number option" where
  "rowspan (TableCellNode _ _ _ r) = r"

section \<open>urlUtils.ts\<close>

definition mediaSuffixes :: "string list" where
  "mediaSuffixes =
     [''jpeg'', ''jpg'', ''png'', ''gif'', ''bmp'', ''tiff'', ''tif'', ''svg'', ''webp'', ''ico'',
      ''avi'', ''mov'', ''mp4'', ''mkv'', ''flv'', ''wmv'', ''webm'', ''mpeg'', ''mpg'', ''mp3'',
      ''wav'', ''aac'', ''ogg'', ''flac'', ''m4a'', ''pdf'', ''doc'', ''docx'', ''ppt'', ''pptx'',
      ''xls'', ''xlsx'', ''txt'', ''css'', ''js'', ''xml'', ''json'', ''html'', ''htm'']"

text \<open>\<open>s.split(c)\<close> for a separator of one character, and \<open>parts.join(sep)\<close>. The result
  of \<open>split\<close> always has a last part, possibly empty.\<close>

fun split :: "char \<Rightarrow> string \<Rightarrow> string list" where
  "split sep [] = [[]]"
| "split sep (c # cs) =
     (if c = sep then [] # split sep cs
      else (case split sep cs of p # ps \<Rightarrow> (c # p) # ps | [] \<Rightarrow> [[c]]))"

fun join :: "string \<Rightarrow> string list \<Rightarrow> string" where
  "join sep [] = []"
| "join sep [p] = p"
| "join sep (p # q # ps) = p @ sep @ join sep (q # ps)"

text \<open>The decimal digits of a number, as string concatenation writes it.\<close>

fun showNat :: "nat \<Rightarrow> string" where
  "showNat n =
     (if n < 10 then [char_of (48 + n)] else showNat (n div 10) @ [char_of (48 + n mod 10)])"

declare showNat.simps [simp del]

text \<open>
  The URL map, a \<open>Record<string, string>\<close>, is a list of keys with their values, each key
  once, in the order of insertion; \<open>Object.values(m).length\<close> is its length. A key is
  absent from the test \<open>!prefixesToRefs[prefix]\<close> also when its value is the empty string.
\<close>

type_synonym urlMap = "(string \<times> string) list"

fun update :: "string \<Rightarrow> string \<Rightarrow> urlMap \<Rightarrow> urlMap" where
  "update k v [] = [(k, v)]"
| "update k v (p # ps) = (if fst p = k then (k, v) # ps else p # update k v ps)"

definition addRefPrefix :: "string \<Rightarrow> urlMap \<Rightarrow> string \<times> urlMap" where
  "addRefPrefix urlPrefix prefixesToRefs =
     (let prefixesToRefs =
            (if (case map_of prefixesToRefs urlPrefix of Some v \<Rightarrow> v = [] | None \<Rightarrow> True)
             then update urlPrefix (''ref'' @ showNat (length prefixesToRefs)) prefixesToRefs
             else prefixesToRefs)
      in (case map_of prefixesToRefs urlPrefix of Some v \<Rightarrow> v | None \<Rightarrow> [], prefixesToRefs))"

definition processUrl :: "string \<Rightarrow> urlMap \<Rightarrow> string \<times> urlMap" where
  "processUrl url prefixesToRefs =
     (if \<not> startsWith url ''http'' then (url, prefixesToRefs)
      else
        let mediaSuffix = last (split (CHR ''.'') url)
        in if mediaSuffix \<noteq> [] \<and> mediaSuffix \<in> set mediaSuffixes
           then
             let parts = split (CHR ''/'') url;
                 urlPrefix = join ''/'' (butlast parts);
                 (refPrefix, prefixesToRefs) = addRefPrefix urlPrefix prefixesToRefs
             in (refPrefix @ ''://'' @ last parts, prefixesToRefs)
           else if length (split (CHR ''/'') url) > 4 then addRefPrefix url prefixesToRefs
           else (url, prefixesToRefs))"

text \<open>
  \<open>refifyUrls\<close> changes the nodes in place and returns the map; here it returns the changed
  nodes with the map. \<open>refifyUrls\<close> is the function on an array of nodes and
  \<open>refifyUrlsNode\<close> the one on a single node. The \<open>switch\<close> has cases for link, image,
  video, list, table, blockquote and semanticHtml; a node of any other type is left as
  it is, with its content.
\<close>

primrec refifyUrls :: "node list \<Rightarrow> urlMap \<Rightarrow> node list \<times> urlMap"
  and refifyUrlsNode :: "node \<Rightarrow> urlMap \<Rightarrow> node \<times> urlMap"
  and refifyItems :: "node list list \<Rightarrow> urlMap \<Rightarrow> node list list \<times> urlMap"
  and refifyRows :: "cell list list \<Rightarrow> urlMap \<Rightarrow> cell list list \<times> urlMap"
  and refifyCells :: "cell list \<Rightarrow> urlMap \<Rightarrow> cell list \<times> urlMap"
  and refifyCell :: "cell \<Rightarrow> urlMap \<Rightarrow> cell \<times> urlMap"
  and refifyCellContent :: "content \<Rightarrow> urlMap \<Rightarrow> content \<times> urlMap" where
  "refifyUrls [] urlMap = ([], urlMap)"
| "refifyUrls (element # elements) urlMap =
     (let (element, urlMap) = refifyUrlsNode element urlMap;
          (elements, urlMap) = refifyUrls elements urlMap
      in (element # elements, urlMap))"
| "refifyUrlsNode (LinkNode href content) urlMap =
     (let (href, urlMap) = processUrl href urlMap;
          (content, urlMap) = refifyUrls content urlMap
      in (LinkNode href content, urlMap))"
| "refifyUrlsNode (ImageNode src alt) urlMap =
     (let (src, urlMap) = processUrl src urlMap in (ImageNode src alt, urlMap))"
| "refifyUrlsNode (VideoNode src poster controls) urlMap =
     (let (src, urlMap) = processUrl src urlMap in (VideoNode src poster controls, urlMap))"
| "refifyUrlsNode (ListNode ordered items) urlMap =
     (let (items, urlMap) = refifyItems items urlMap in (ListNode ordered items, urlMap))"
| "refifyUrlsNode (TableNode rows colIds) urlMap =
     (let (rows, urlMap) = refifyRows rows urlMap in (TableNode rows colIds, urlMap))"
| "refifyUrlsNode (BlockquoteNode content) urlMap =
     (let (content, urlMap) = refifyUrls content urlMap in (BlockquoteNode content, urlMap))"
| "refifyUrlsNode (SemanticHtmlNode htmlType content) urlMap =
     (let (content, urlMap) = refifyUrls content urlMap
      in (SemanticHtmlNode htmlType content, urlMap))"
| "refifyUrlsNode (TextNode t) urlMap = (TextNode t, urlMap)"
| "refifyUrlsNode (BoldNode c) urlMap = (BoldNode c, urlMap)"
| "refifyUrlsNode (ItalicNode c) urlMap = (ItalicNode c, urlMap)"
| "refifyUrlsNode (StrikethroughNode c) urlMap = (StrikethroughNode c, urlMap)"
| "refifyUrlsNode (HeadingNode level c) urlMap = (HeadingNode level c, urlMap)"
| "refifyUrlsNode (CodeNode c language inline) urlMap = (CodeNode c language inline, urlMap)"
| "refifyUrlsNode (CustomNode c) urlMap = (CustomNode c, urlMap)"
| "refifyUrlsNode (MetaDataNode c) urlMap = (MetaDataNode c, urlMap)"
| "refifyItems [] urlMap = ([], urlMap)"
| "refifyItems (item # items) urlMap =
     (let (item, urlMap) = refifyUrls item urlMap;
          (items, urlMap) = refifyItems items urlMap
      in (item # items, urlMap))"
| "refifyRows [] urlMap = ([], urlMap)"
| "refifyRows (row # rows) urlMap =
     (let (row, urlMap) = refifyCells row urlMap;
          (rows, urlMap) = refifyRows rows urlMap
      in (row # rows, urlMap))"
| "refifyCells [] urlMap = ([], urlMap)"
| "refifyCells (cell # cells) urlMap =
     (let (cell, urlMap) = refifyCell cell urlMap;
          (cells, urlMap) = refifyCells cells urlMap
      in (cell # cells, urlMap))"
| "refifyCell (TableCellNode c i cspan rspan) urlMap =
     (let (c, urlMap) = refifyCellContent c urlMap in (TableCellNode c i cspan rspan, urlMap))"
| "refifyCellContent (Str s) urlMap = (Str s, urlMap)"
| "refifyCellContent (Nodes content) urlMap =
     (let (content, urlMap) = refifyUrls content urlMap in (Nodes content, urlMap))"

section \<open>Options and the host\<close>

datatype metaMode = Basic | Extended

text \<open>What \<open>overrideElementProcessing\<close> returns when it does not return \<open>undefined\<close>.\<close>

datatype overrideResult = OverrideFalse | OverrideNodes "node list"

record domParser =
  parseFromString :: "string \<Rightarrow> document"

text \<open>
  \<open>ConversionOptions\<close>, with \<open>extractMainContent\<close> and \<open>overrideDOMParser\<close>. An absent
  option is \<open>None\<close>, an absent flag is \<open>False\<close>. The hooks are called with the options as
  their second argument; a hook of the model is the function of the other two.
  \<open>refifyUrls_flag\<close> is the option \<open>refifyUrls\<close> and \<open>urlMap_opt\<close> the option \<open>urlMap\<close>.
\<close>

record options =
  websiteDomain :: "string option"
  includeMetaData :: "metaMode option"
  excludeTagNames :: "string list option"
  excludeInvisibleElements :: bool
  enableTableColumnTracking :: bool
  overrideElementProcessing :: "(dnode \<Rightarrow> nat \<Rightarrow> overrideResult option) option"
  processUnhandledElement :: "(dnode \<Rightarrow> nat \<Rightarrow> node list option) option"
  emitFrontMatter :: bool
  overrideNodeRenderer :: "(node \<Rightarrow> nat \<Rightarrow> string option) option"
  renderCustomNode :: "(node \<Rightarrow> nat \<Rightarrow> string option) option"
  refifyUrls_flag :: bool
  urlMap_opt :: "urlMap option"
  extractMainContent :: bool
  overrideDOMParser :: "domParser option"

text \<open>
  What the source takes from its host and from modules that are not modelled: the global
  \<open>DOMParser\<close> if there is one, \<open>encodeURI\<close>, \<open>JSON.stringify\<close> on strings, the string
  conversion of a JSON value and of a finite number, the serialisations \<open>outerHTML\<close> and
  \<open>innerHTML\<close>, and the metadata extractor \<open>extractMetaData\<close>.
\<close>

record host =
  DOMParser :: "domParser option"
  encodeURI :: "string \<Rightarrow> string"
  JSON_stringify :: "string \<Rightarrow> string"
  String_of_json :: "json \<Rightarrow> string"
  Number_toString :: "rat \<Rightarrow> string"
  outerHTML :: "dnode \<Rightarrow> string"
  innerHTML :: "dnode \<Rightarrow> string"
  extractMetaData :: "dnode \<Rightarrow> metaMode \<Rightarrow> metaContent"

section \<open>markdownASTToString.ts\<close>

text \<open>The test for one space before the content of an inline node, and the step that
  adds it.\<close>

definition isContentPunctuation :: "string \<Rightarrow> bool" where
  "isContentPunctuation content \<longleftrightarrow> length content = 1 \<and> hd content \<in> set ''.,!?;:''"

definition addSpace :: "string \<Rightarrow> string \<Rightarrow> string" where
  "addSpace markdownString content =
     (let isMarkdownStringNotEmpty = length markdownString > 0;
          isFirstCharOfContentWhitespace = (content \<noteq> [] \<and> isWhitespace (hd content));
          isLastCharOfMarkdownWhitespace =
            (markdownString \<noteq> [] \<and> isWhitespace (last markdownString))
      in if isMarkdownStringNotEmpty \<and> \<not> isContentPunctuation content
            \<and> \<not> isFirstCharOfContentWhitespace \<and> \<not> isLastCharOfMarkdownWhitespace
         then markdownString @ '' '' else markdownString)"

definition indentOf :: "nat \<Rightarrow> string" where
  "indentOf indentLevel = replicate (indentLevel * 2) (CHR '' '')"

text \<open>A result of a rendering hook counts when it is a non-empty string.\<close>

definition truthy :: "string option \<Rightarrow> bool" where
  "truthy r \<longleftrightarrow> (case r of Some s \<Rightarrow> s \<noteq> [] | None \<Rightarrow> False)"

text \<open>\<open>cell.colspan || 1\<close>, the width of a row, and \<open>maxColumns\<close>: the greatest width of a
  row.\<close>

definition colspanOr1 :: "cell \<Rightarrow> number" where
  "colspanOr1 c = (case colspan c of Some v \<Rightarrow> if isTruthy v then v else Num 1 | None \<Rightarrow> Num 1)"

definition rowWidth :: "cell list \<Rightarrow> number" where
  "rowWidth cells = fold (\<lambda>c sum. numAdd sum (colspanOr1 c)) cells (Num 0)"

definition maxColumnsOf :: "cell list list \<Rightarrow> number" where
  "maxColumnsOf rows = mathMax (map rowWidth rows)"

text \<open>
  A number in a template string. The digits of an integer of at most \<open>2^53\<close> in
  magnitude are its decimal digits; the text of any other finite number is taken from the
  host.
\<close>

definition showInt :: "int \<Rightarrow> string" where
  "showInt i = (if i < 0 then ''-'' @ showNat (nat (- i)) else showNat (nat i))"

definition numberToString :: "host \<Rightarrow> number \<Rightarrow> string" where
  "numberToString h v =
     (case v of
        Num q \<Rightarrow>
          if q = of_int \<lfloor>q\<rfloor> \<and> \<bar>q\<bar> \<le> 9007199254740992 then showInt \<lfloor>q\<rfloor>
          else Number_toString h q
      | NaN \<Rightarrow> ''NaN''
      | Infinity \<Rightarrow> ''Infinity''
      | MinusInfinity \<Rightarrow> ''-Infinity'')"

text \<open>The comments for \<open>colId\<close>, \<open>colspan\<close> and \<open>rowspan\<close> after the content of a cell.\<close>

definition cellAnnotations :: "host \<Rightarrow> cell \<Rightarrow> string" where
  "cellAnnotations h c =
     (case colId c of Some i \<Rightarrow> if i \<noteq> [] then '' <!-- '' @ i @ '' -->'' else [] | None \<Rightarrow> [])
     @ (case colspan c of
          Some v \<Rightarrow>
            if isTruthy v \<and> numLess (Num 1) v
            then '' <!-- colspan: '' @ numberToString h v @ '' -->'' else []
        | None \<Rightarrow> [])
     @ (case rowspan c of
          Some v \<Rightarrow>
            if isTruthy v \<and> numLess (Num 1) v
            then '' <!-- rowspan: '' @ numberToString h v @ '' -->'' else []
        | None \<Rightarrow> [])"

text \<open>
  The two loops of a table row that append to the string. \<open>fillLoop\<close> is
  \<open>for (let i = 1; i < (cell.colspan || 1); i++) markdownString += '| '\<close> from the value of
  \<open>i\<close> on, and \<open>padLoop\<close> is
  \<open>while (currentColumn < maxColumns) { markdownString += '|  '; currentColumn++ }\<close>.
  A loop that does not end has the value \<open>None\<close>: with the span \<open>Infinity\<close>, say, the source
  appends until the host gives up on the length of the string.
\<close>

partial_function (option) fillLoop :: "string \<Rightarrow> number \<Rightarrow> number \<Rightarrow> string option" where
  "fillLoop markdownString i v =
     (if numLess i v then fillLoop (markdownString @ ''| '') (numAdd i (Num 1)) v
      else Some markdownString)"

partial_function (option) padLoop :: "string \<Rightarrow> number \<Rightarrow> number \<Rightarrow> string option" where
  "padLoop markdownString currentColumn maxColumns =
     (if numLess currentColumn maxColumns
      then padLoop (markdownString @ ''|  '') (numAdd currentColumn (Num 1)) maxColumns
      else Some markdownString)"

declare fillLoop.simps [code]
declare padLoop.simps [code]

definition regionTypes :: "string list" where
  "regionTypes = [''summary'', ''time'', ''aside'', ''nav'', ''figcaption'', ''main'', ''mark'',
                  ''header'', ''footer'', ''details'', ''figure'']"

text \<open>
  \<open>markdownContentASTToString\<close>. \<open>renderNodes\<close> is the \<open>forEach\<close> over the nodes with the
  string built so far, \<open>renderNode\<close> the \<open>switch\<close> on one node, \<open>renderItems\<close> the loop over
  the items of a list with the index of the item, \<open>renderRows\<close> and \<open>renderCells\<close> the
  loops of a table, the latter with \<open>currentColumn\<close>; \<open>renderContent\<close> renders a content
  that is an array and returns a content that is a string; \<open>renderCell\<close> gives the
  \<open>cellContent\<close> of a cell, with its comments, as the row loop emits it. The result is
  \<open>None\<close> when a loop of a table does not end.
\<close>

primrec renderNodes :: "host \<Rightarrow> options \<Rightarrow> node list \<Rightarrow> nat \<Rightarrow> string \<Rightarrow> string option"
  and renderNode :: "host \<Rightarrow> options \<Rightarrow> node \<Rightarrow> nat \<Rightarrow> string \<Rightarrow> string option"
  and renderContent :: "host \<Rightarrow> options \<Rightarrow> content \<Rightarrow> nat \<Rightarrow> string option"
  and renderItems ::
    "host \<Rightarrow> options \<Rightarrow> node list list \<Rightarrow> bool \<Rightarrow> nat \<Rightarrow> nat \<Rightarrow> string \<Rightarrow> string option"
  and renderRows ::
    "host \<Rightarrow> options \<Rightarrow> cell list list \<Rightarrow> number \<Rightarrow> nat \<Rightarrow> string \<Rightarrow> string option"
  and renderCells ::
    "host \<Rightarrow> options \<Rightarrow> cell list \<Rightarrow> nat \<Rightarrow> string \<times> number \<Rightarrow> (string \<times> number) option"
  and renderCell :: "host \<Rightarrow> options \<Rightarrow> cell \<Rightarrow> nat \<Rightarrow> string option" where
  "renderNodes h options [] indentLevel markdownString = Some markdownString"
| "renderNodes h options (node # nodes) indentLevel markdownString =
     (let nodeRenderingOverride =
            (case overrideNodeRenderer options of
               Some f \<Rightarrow> f node indentLevel
             | None \<Rightarrow> None)
      in case (if truthy nodeRenderingOverride
               then Some (markdownString @ the nodeRenderingOverride)
               else renderNode h options node indentLevel markdownString) of
           None \<Rightarrow> None
         | Some markdownString \<Rightarrow> renderNodes h options nodes indentLevel markdownString)"
| "renderNode h options (TextNode content) indentLevel markdownString =
     Some (addSpace markdownString content @ indentOf indentLevel @ content)"
| "renderNode h options (BoldNode c) indentLevel markdownString =
     (case renderContent h options c indentLevel of
        None \<Rightarrow> None
      | Some content \<Rightarrow> Some (addSpace markdownString content @ ''**'' @ content @ ''**''))"
| "renderNode h options (ItalicNode c) indentLevel markdownString =
     (case renderContent h options c indentLevel of
        None \<Rightarrow> None
      | Some content \<Rightarrow> Some (addSpace markdownString content @ ''*'' @ content @ ''*''))"
| "renderNode h options (StrikethroughNode c) indentLevel markdownString =
     (case renderContent h options c indentLevel of
        None \<Rightarrow> None
      | Some content \<Rightarrow> Some (addSpace markdownString content @ ''~~'' @ content @ ''~~''))"
| "renderNode h options (LinkNode href c) indentLevel markdownString =
     (case renderNodes h options c indentLevel [] of
        None \<Rightarrow> None
      | Some content \<Rightarrow>
          Some (addSpace markdownString content @
                (if length c = 1 \<and> (case c ! 0 of TextNode _ \<Rightarrow> True | _ \<Rightarrow> False)
                 then ''['' @ content @ '']('' @ encodeURI h href @ '')''
                 else ''<a href='' @ [CHR 0x22] @ href @ [CHR 0x22] @ ''>'' @ content
                        @ ''</a>'')))"
| "renderNode h options (HeadingNode level c) indentLevel markdownString =
     (let isEndsWithNewLine = (markdownString \<noteq> [] \<and> last markdownString = CHR 0x0A);
          markdownString = (if \<not> isEndsWithNewLine then markdownString @ [CHR 0x0A]
                            else markdownString)
      in case renderContent h options c indentLevel of
           None \<Rightarrow> None
         | Some headingContent \<Rightarrow>
             Some (markdownString @ replicate level (CHR ''#'') @ '' '' @ headingContent
                     @ [CHR 0x0A, CHR 0x0A]))"
| "renderNode h options (ImageNode src alt) indentLevel markdownString =
     Some (if (case alt of Some a \<Rightarrow> trim a = [] | None \<Rightarrow> True) \<or> trim src \<noteq> []
           then markdownString @ ''!['' @ (case alt of Some a \<Rightarrow> a | None \<Rightarrow> []) @ '']('' @ src
                  @ '')''
           else markdownString)"
| "renderNode h options (ListNode ordered items) indentLevel markdownString =
     (case renderItems h options items ordered 0 indentLevel markdownString of
        None \<Rightarrow> None
      | Some markdownString \<Rightarrow> Some (markdownString @ [CHR 0x0A]))"
| "renderNode h options (VideoNode src poster controls) indentLevel markdownString =
     Some (markdownString @ [CHR 0x0A] @ ''![Video]('' @ src @ '')'' @ [CHR 0x0A]
             @ (if truthy poster then ''![Poster]('' @ the poster @ '')'' @ [CHR 0x0A] else [])
             @ (if controls = Some True then ''Controls: true'' @ [CHR 0x0A] else [])
             @ [CHR 0x0A])"
| "renderNode h options (TableNode rows colIds) indentLevel markdownString =
     (case renderRows h options rows (maxColumnsOf rows) indentLevel markdownString of
        None \<Rightarrow> None
      | Some markdownString \<Rightarrow> Some (markdownString @ [CHR 0x0A]))"
| "renderNode h options (CodeNode content language inline) indentLevel markdownString =
     Some (if inline
           then
             (let isLastWhitespace =
                    (markdownString \<noteq> [] \<and> isWhitespace (last markdownString))
              in (if \<not> isLastWhitespace then markdownString @ '' '' else markdownString)
                   @ ''`'' @ content @ ''`'')
           else markdownString @ [CHR 0x0A] @ ''```''
                  @ (case language of Some l \<Rightarrow> l | None \<Rightarrow> [])
                  @ [CHR 0x0A] @ content @ [CHR 0x0A] @ ''```'' @ [CHR 0x0A, CHR 0x0A])"
| "renderNode h options (BlockquoteNode content) indentLevel markdownString =
     (case renderNodes h options content 0 [] of
        None \<Rightarrow> None
      | Some rendered \<Rightarrow> Some (markdownString @ ''> '' @ trim rendered @ [CHR 0x0A, CHR 0x0A]))"
| "renderNode h options (MetaDataNode m) indentLevel markdownString = Some markdownString"
| "renderNode h options (SemanticHtmlNode htmlType content) indentLevel markdownString =
     (if htmlType = ''article''
      then (case renderNodes h options content 0 [] of
              None \<Rightarrow> None
            | Some rendered \<Rightarrow> Some (markdownString @ [CHR 0x0A, CHR 0x0A] @ rendered))
      else if htmlType \<in> set regionTypes
      then (case renderNodes h options content 0 [] of
              None \<Rightarrow> None
            | Some rendered \<Rightarrow>
                Some (markdownString @ [CHR 0x0A, CHR 0x0A] @ ''<-'' @ htmlType @ ''->''
                        @ [CHR 0x0A] @ rendered
                        @ [CHR 0x0A, CHR 0x0A] @ ''</-'' @ htmlType @ ''->'' @ [CHR 0x0A]))
      else if htmlType = ''section''
      then (case renderNodes h options content 0 [] of
              None \<Rightarrow> None
            | Some rendered \<Rightarrow>
                Some (markdownString @ ''---'' @ [CHR 0x0A, CHR 0x0A] @ rendered
                        @ [CHR 0x0A, CHR 0x0A] @ ''---'' @ [CHR 0x0A, CHR 0x0A]))
      else Some markdownString)"
| "renderNode h options (CustomNode c) indentLevel markdownString =
     (let customNodeRendering =
            (case renderCustomNode options of
               Some f \<Rightarrow> f (CustomNode c) indentLevel
             | None \<Rightarrow> None)
      in Some (if truthy customNodeRendering then markdownString @ the customNodeRendering
               else markdownString))"
| "renderContent h options (Str s) indentLevel = Some s"
| "renderContent h options (Nodes nodes) indentLevel = renderNodes h options nodes indentLevel []"
| "renderItems h options [] ordered i indentLevel markdownString = Some markdownString"
| "renderItems h options (item # items) ordered i indentLevel markdownString =
     (case renderNodes h options item (indentLevel + 1) [] of
        None \<Rightarrow> None
      | Some rendered \<Rightarrow>
          (let listItemPrefix = (if ordered then showNat (i + 1) @ ''.'' else ''-'');
               contents = trim rendered;
               markdownString =
                 (if \<not> (markdownString \<noteq> [] \<and> last markdownString = CHR 0x0A)
                  then markdownString @ [CHR 0x0A] else markdownString);
               markdownString =
                 (if contents \<noteq> []
                  then markdownString @ indentOf indentLevel @ listItemPrefix @ '' '' @ contents
                         @ [CHR 0x0A]
                  else markdownString)
           in renderItems h options items ordered (i + 1) indentLevel markdownString))"
| "renderRows h options [] maxColumns indentLevel markdownString = Some markdownString"
| "renderRows h options (row # rows) maxColumns indentLevel markdownString =
     (case renderCells h options row indentLevel (markdownString, Num 0) of
        None \<Rightarrow> None
      | Some (markdownString, currentColumn) \<Rightarrow>
          (case padLoop markdownString currentColumn maxColumns of
             None \<Rightarrow> None
           | Some markdownString \<Rightarrow>
               renderRows h options rows maxColumns indentLevel
                 (markdownString @ ''|'' @ [CHR 0x0A])))"
| "renderCells h options [] indentLevel state = Some state"
| "renderCells h options (cell # cells) indentLevel state =
     (let (markdownString, currentColumn) = state
      in case renderCell h options cell indentLevel of
           None \<Rightarrow> None
         | Some content \<Rightarrow>
             (let markdownString = markdownString @ ''| '' @ content @ '' '';
                  currentColumn = numAdd currentColumn (colspanOr1 cell)
              in case fillLoop markdownString (Num 1) (colspanOr1 cell) of
                   None \<Rightarrow> None
                 | Some markdownString \<Rightarrow>
                     renderCells h options cells indentLevel (markdownString, currentColumn)))"
| "renderCell h options (TableCellNode c i cspan rspan) indentLevel =
     (case renderContent h options c (indentLevel + 1) of
        None \<Rightarrow> None
      | Some rendered \<Rightarrow>
          (let cellContent = (case c of Str s \<Rightarrow> s | Nodes _ \<Rightarrow> trim rendered)
           in Some (cellContent @ cellAnnotations h (TableCellNode c i cspan rspan))))"

definition markdownContentASTToString ::
  "host \<Rightarrow> node list \<Rightarrow> options \<Rightarrow> nat \<Rightarrow> string option" where
  "markdownContentASTToString h nodes options indentLevel =
     renderNodes h options nodes indentLevel []"

section \<open>htmlToMarkdownAST.ts\<close>

definition lineBreak :: node where
  "lineBreak = TextNode [CHR 0x0A]"

definition contentBreak :: node where
  "contentBreak = TextNode [CHR 0x0A, CHR 0x0A]"

text \<open>\<open>Number.parseInt(s, 10)\<close>: white space, a sign, decimal digits. Without a digit the
  result is \<open>NaN\<close>; otherwise it is the double nearest to the integer that the digits
  write. (The heading translator calls \<open>Number.parseInt\<close> without a radix, on the digit
  of the tag name, where the radix is 10 as well.)\<close>

definition isDigit :: "char \<Rightarrow> bool" where
  "isDigit c \<longleftrightarrow> c \<in> set ''0123456789''"

definition digitsValue :: "string \<Rightarrow> int" where
  "digitsValue ds = foldl (\<lambda>v c. 10 * v + (int (of_char c) - 48)) 0 ds"

definition parseInt :: "string \<Rightarrow> number" where
  "parseInt s =
     (let s = dropWhile isWhitespace s;
          negative = (s \<noteq> [] \<and> hd s = CHR ''-'');
          s = (if s \<noteq> [] \<and> (hd s = CHR ''-'' \<or> hd s = CHR ''+'') then tl s else s);
          ds = takeWhile isDigit s
      in if ds = [] then NaN
         else roundToDouble (if negative then - digitsValue ds else digitsValue ds))"

text \<open>The element children of a node, and \<open>querySelectorAll\<close> for a list of tag names.\<close>

definition children :: "dnode \<Rightarrow> dnode list" where
  "children e = filter isElement (childNodes e)"

definition querySelectorAll :: "string list \<Rightarrow> dnode \<Rightarrow> dnode list" where
  "querySelectorAll names e = filter (\<lambda>d. lowerTag d \<in> set names) (descendants e)"

text \<open>\<open>isElementVisible\<close> of this module.\<close>

definition isElementVisible :: "element \<Rightarrow> bool" where
  "isElementVisible p \<longleftrightarrow>
     (if isHTMLElement p then offsetWidth p \<noteq> 0 \<or> offsetHeight p \<noteq> 0 else True)"

text \<open>The removal of the website domain from the front of a URL, as the translators of
  \<open>a\<close> and \<open>img\<close> do it.\<close>

definition stripWebsiteDomain :: "options \<Rightarrow> string \<Rightarrow> string" where
  "stripWebsiteDomain options url =
     (case websiteDomain options of
        Some d \<Rightarrow> if d \<noteq> [] \<and> startsWith url d then drop (length d) url else url
      | None \<Rightarrow> url)"

text \<open>
  The translators push nodes onto \<open>result\<close>; here a translator returns the nodes that it
  pushes. A translator that starts from \<open>htmlToMarkdownAST(node, options)\<close> takes that
  array as its argument \<open>content\<close>.
\<close>

definition translators_p :: "node list \<Rightarrow> node list" where
  "translators_p content = (if length content = 0 then [] else content @ [contentBreak])"

definition translators_a :: "options \<Rightarrow> element \<Rightarrow> dnode list \<Rightarrow> node list \<Rightarrow> node list" where
  "translators_a options linkNode linkChildNodes content =
     (if (case href_prop linkNode of Some hr \<Rightarrow> startsWith hr ''data:image'' | None \<Rightarrow> False)
      then [LinkNode ''-'' content]
      else
        let href = (case href_prop linkNode of
                      Some hr \<Rightarrow> stripWebsiteDomain options hr
                    | None \<Rightarrow> ''#'')
        in if list_all isTextNode linkChildNodes
           then [LinkNode href [TextNode (trim (concat (map textContent linkChildNodes)))]]
           else if length content = 0 then []
           else [LinkNode href content])"

definition translators_img :: "options \<Rightarrow> element \<Rightarrow> node list" where
  "translators_img options imageNode =
     (if startsWith (src_prop imageNode) ''data:image''
      then [ImageNode ''-'' (Some (escapeMarkdownCharacters (alt_prop imageNode) False))]
      else [ImageNode (stripWebsiteDomain options (src_prop imageNode))
              (Some (escapeMarkdownCharacters (alt_prop imageNode) False))])"

definition translators_video :: "element \<Rightarrow> node list" where
  "translators_video videoNode =
     [VideoNode (src_prop videoNode)
        (Some (escapeMarkdownCharacters (poster_prop videoNode) False))
        (Some (controls_prop videoNode))]"

definition translators_code :: "element \<Rightarrow> string \<Rightarrow> node list" where
  "translators_code codeNode codeTextContent =
     (let content = trim codeTextContent
      in if content = [] then []
         else
           let language =
                 (case List.find (\<lambda>className. startsWith className ''language-'')
                         (classList codeNode) of
                    Some className \<Rightarrow> Some (drop (length ''language-'') className)
                  | None \<Rightarrow> None)
           in [CodeNode content language (parentNodeName codeNode \<noteq> Some ''PRE'')])"

definition headingTranslator :: "element \<Rightarrow> node list \<Rightarrow> node list" where
  "headingTranslator headingNode content =
     (let level = (case parseInt (drop 1 (tagName headingNode)) of
                     Num n \<Rightarrow> nat \<lfloor>n\<rfloor>
                   | _ \<Rightarrow> 0)
      in [HeadingNode level (Nodes content)])"

definition formattingTagMap :: "(string \<times> (content \<Rightarrow> node)) list" where
  "formattingTagMap =
     [(''strong'', BoldNode), (''b'', BoldNode), (''em'', ItalicNode), (''i'', ItalicNode),
      (''s'', StrikethroughNode)]"

definition formattingTranslator :: "element \<Rightarrow> string \<Rightarrow> node list \<Rightarrow> node list" where
  "formattingTranslator element elementTextContent content =
     (if trim elementTextContent \<noteq> []
      then (case map_of formattingTagMap (toLowerCase (tagName element)) of
              Some mk \<Rightarrow> [mk (Nodes content)]
            | None \<Rightarrow> [])
      else [])"

definition semanticTags :: "string list" where
  "semanticTags = [''article'', ''aside'', ''details'', ''figcaption'', ''figure'', ''footer'',
                   ''header'', ''main'', ''mark'', ''nav'', ''section'', ''summary'', ''time'']"

text \<open>The tags whose translator is \<open>noop\<close>; and \<open>constructor\<close>, for which the lookup in the
  table of translators finds the \<open>Object\<close> function, which does nothing here either.\<close>

definition ignoredTags :: "string list" where
  "ignoredTags = [''noscript'', ''script'', ''style'', ''html'', ''constructor'']"

text \<open>
  The table translator without its recursion. \<open>cellAttr\<close> is
  \<open>cell.getAttribute(name) || '1'\<close>; \<open>columnIndexes\<close> gives for each cell of a row the value
  of \<open>columnIndex\<close> when the cell is reached; \<open>colIdAt\<close> is \<open>colIds[columnIndex]\<close>, which is
  \<open>undefined\<close> unless the index is an integer within the array; \<open>spanOf\<close> is
  \<open>span > 1 ? span : undefined\<close>.
\<close>

definition cellAttr :: "dnode \<Rightarrow> string \<Rightarrow> string" where
  "cellAttr cell name =
     (case getAttribute cell name of Some v \<Rightarrow> if v = [] then ''1'' else v | None \<Rightarrow> ''1'')"

fun columnIndexes :: "number \<Rightarrow> dnode list \<Rightarrow> number list" where
  "columnIndexes columnIndex [] = []"
| "columnIndexes columnIndex (cell # cells) =
     columnIndex #
     columnIndexes (numAdd columnIndex (parseInt (cellAttr cell ''colspan''))) cells"

definition colIdAt :: "string list \<Rightarrow> number \<Rightarrow> string option" where
  "colIdAt colIds columnIndex =
     (case columnIndex of
        Num i \<Rightarrow>
          if i = of_int \<lfloor>i\<rfloor> \<and> 0 \<le> i \<and> \<lfloor>i\<rfloor> < int (length colIds)
          then Some (colIds ! nat \<lfloor>i\<rfloor>) else None
      | _ \<Rightarrow> None)"

definition spanOf :: "number \<Rightarrow> number option" where
  "spanOf v = (if numLess (Num 1) v then Some v else None)"

definition tableColIds :: "options \<Rightarrow> dnode \<Rightarrow> string list" where
  "tableColIds options tableNode =
     (if enableTableColumnTracking options
      then map (\<lambda>index. ''col-'' @ showNat index)
             [0..<length (querySelectorAll [''th'', ''td''] tableNode)]
      else [])"

definition headerSeparatorRow :: "dnode \<Rightarrow> cell list" where
  "headerSeparatorRow firstRow =
     map (\<lambda>_. TableCellNode (Str ''---'') None None None)
       (querySelectorAll [''th'', ''td''] firstRow)"

definition withHeaderSeparator :: "dnode list \<Rightarrow> cell list list \<Rightarrow> cell list list" where
  "withHeaderSeparator tableRows markdownTableRows =
     (if length markdownTableRows > 0
      then
        (let hasHeaders = (querySelectorAll [''th''] (tableRows ! 0) \<noteq> [])
         in if hasHeaders
            then take 1 markdownTableRows @ [headerSeparatorRow (tableRows ! 0)]
                   @ drop 1 markdownTableRows
            else markdownTableRows)
      else markdownTableRows)"

text \<open>
  \<open>htmlToMarkdownAST\<close> and the \<open>processChild\<close> of its body.
\<close>

function htmlToMarkdownAST :: "host \<Rightarrow> dnode \<Rightarrow> options \<Rightarrow> nat \<Rightarrow> node list"
  and processChild :: "host \<Rightarrow> options \<Rightarrow> nat \<Rightarrow> dnode \<Rightarrow> node list" where
  "htmlToMarkdownAST h (DomElement p sh asg cs) options indentLevel =
     concat (map (processChild h options indentLevel) (case sh of Some scs \<Rightarrow> scs | None \<Rightarrow> cs))"
| "htmlToMarkdownAST h (DomText s) options indentLevel = []"
| "htmlToMarkdownAST h DomOther options indentLevel = []"
| "processChild h options indentLevel (DomText s) =
     (let textContent = escapeMarkdownCharacters (trim s) False
      in if textContent \<noteq> [] then [TextNode textContent] else [])"
| "processChild h options indentLevel DomOther = []"
| "processChild h options indentLevel (DomElement p sh asg cs) =
     (let child = DomElement p sh asg cs
      in if tagName p = ''SLOT'' then concat (map (processChild h options indentLevel) asg)
         else
           (case (case overrideElementProcessing options of
                    Some f \<Rightarrow> f child indentLevel
                  | None \<Rightarrow> None) of
              Some OverrideFalse \<Rightarrow> []
            | Some (OverrideNodes overrideResult) \<Rightarrow> overrideResult
            | None \<Rightarrow>
                (let tag = toLowerCase (tagName p)
                 in if (case excludeTagNames options of Some ts \<Rightarrow> tag \<in> set ts | None \<Rightarrow> False)
                    then []
                    else if includeMetaData options \<noteq> None \<and> tag = ''head''
                    then [MetaDataNode (extractMetaData h child (the (includeMetaData options)))]
                    else if excludeInvisibleElements options \<and> \<not> isElementVisible p then []
                    else if tag = ''p''
                    then translators_p (htmlToMarkdownAST h child options 0)
                    else if tag = ''a''
                    then translators_a options p cs (htmlToMarkdownAST h child options 0)
                    else if tag = ''img'' then translators_img options p
                    else if tag = ''video'' then translators_video p
                    else if tag = ''br'' then [lineBreak]
                    else if tag = ''hr'' then [contentBreak]
                    else if tag = ''table''
                    then
                      (let colIds = tableColIds options child;
                           tableRows = querySelectorAll [''tr''] child;
                           markdownTableRows =
                             map (\<lambda>row.
                                   let cells = querySelectorAll [''th'', ''td''] row
                                   in map (\<lambda>(cell, columnIndex).
                                            TableCellNode
                                              (Nodes (htmlToMarkdownAST h cell options
                                                        (indentLevel + 1)))
                                              (colIdAt colIds columnIndex)
                                              (spanOf (parseInt (cellAttr cell ''colspan'')))
                                              (spanOf (parseInt (cellAttr cell ''rowspan''))))
                                        (zip cells (columnIndexes (Num 0) cells)))
                               tableRows
                       in [TableNode (withHeaderSeparator tableRows markdownTableRows)
                             (Some colIds)])
                    else if tag = ''blockquote''
                    then [BlockquoteNode (htmlToMarkdownAST h child options 0)]
                    else if tag = ''code'' then translators_code p (textContent child)
                    else if tag \<in> set [''h1'', ''h2'', ''h3'', ''h4'', ''h5'', ''h6'']
                    then headingTranslator p (htmlToMarkdownAST h child options 0)
                    else if tag = ''ul'' \<or> tag = ''ol''
                    then [ListNode (tagName p = ''OL'')
                            (map (\<lambda>li. htmlToMarkdownAST h li options (indentLevel + 1))
                               (children child))]
                    else if tag \<in> set (map fst formattingTagMap)
                    then formattingTranslator p (textContent child)
                           (htmlToMarkdownAST h child options (indentLevel + 1))
                    else if tag \<in> set semanticTags
                    then [SemanticHtmlNode tag (htmlToMarkdownAST h child options 0)]
                    else if tag \<in> set ignoredTags then []
                    else
                      (case (case processUnhandledElement options of
                               Some f \<Rightarrow> f child indentLevel
                             | None \<Rightarrow> None) of
                         Some unhandledElementProcessing \<Rightarrow> unhandledElementProcessing
                       | None \<Rightarrow> htmlToMarkdownAST h child options (indentLevel + 1)))))"
  by pat_completeness auto
termination
proof -
  have size_in_list: "size x < size_list size xs" if "x \<in> set xs" for x :: dnode and xs
    using that by (induction xs) auto
  have size_descendants: "d \<in> set (descendants n) \<Longrightarrow> size d < size n"
    and "d \<in> set (descendantsOfList ns) \<Longrightarrow> size d < Suc (size_list size ns)"
    for d n ns
  proof (induction n and ns rule: descendants_descendantsOfList.induct)
    case (5 c cs)
    then show ?case by (auto split: if_splits)
  qed auto
  have size_querySelectorAll: "size d < size n"
    if "d \<in> set (querySelectorAll names n)" for d names n
    using that by (auto simp: querySelectorAll_def dest: size_descendants)
  have size_children: "size d < size n" if "d \<in> set (children n)" for d n
    using that by (cases n) (auto simp: children_def dest!: size_in_list)
  show ?thesis
  proof (relation "measure (\<lambda>x. case x of Inl (h, e, opts, i) \<Rightarrow> 2 * size e
                                          | Inr (h, opts, i, c) \<Rightarrow> 2 * size c + 1)",
      goal_cases)
    case 1
    show ?case by simp
  next
    case (2 h p sh asg cs options indentLevel x)
    then show ?case
      by (cases sh) (auto dest!: size_in_list)
  next
    case (3 h options indentLevel p sh asg cs x xa)
    then show ?case
      by (auto dest!: size_in_list)
  next
    case (6 h options indentLevel p sh asg cs x xa xaa xab xb xc xd xe y)
    from 6 have "xe \<in> set (querySelectorAll [''th'', ''td''] xb)"
      by (auto dest: set_zip_leftD)
    then have "size xe < size xb" by (rule size_querySelectorAll)
    moreover from 6 have "size xb < size x"
      by (auto dest: size_querySelectorAll)
    ultimately show ?case using 6 by simp
  next
    case (9 h options indentLevel p sh asg cs x xa xaa)
    then have "size xaa < size x" by (auto dest: size_children)
    then show ?case using 9 by simp
  qed simp_all
qed

section \<open>astUtils.ts: findInAST\<close>

text \<open>
  The first node, in the order of the search, that the checker accepts. The search enters
  the content of link, list, table, blockquote and semanticHtml nodes. \<open>findInAST\<close> is the
  function on an array and \<open>findInASTNode\<close> the one on a single node; \<open>findInItems\<close>
  and \<open>findInRows\<close> are the loop over the flattened contents of the items and cells.
\<close>

primrec findInAST :: "node list \<Rightarrow> (node \<Rightarrow> bool) \<Rightarrow> node option"
  and findInASTNode :: "node \<Rightarrow> (node \<Rightarrow> bool) \<Rightarrow> node option"
  and findInItems :: "node list list \<Rightarrow> (node \<Rightarrow> bool) \<Rightarrow> node option"
  and findInRows :: "cell list list \<Rightarrow> (node \<Rightarrow> bool) \<Rightarrow> node option"
  and findInCells :: "cell list \<Rightarrow> (node \<Rightarrow> bool) \<Rightarrow> node option"
  and findInCell :: "cell \<Rightarrow> (node \<Rightarrow> bool) \<Rightarrow> node option"
  and findInContent :: "content \<Rightarrow> (node \<Rightarrow> bool) \<Rightarrow> node option" where
  "findInAST [] checker = None"
| "findInAST (element # z) checker =
     (case findInASTNode element checker of
        Some found \<Rightarrow> Some found
      | None \<Rightarrow> findInAST z checker)"
| "findInASTNode (LinkNode href content) checker =
     (if checker (LinkNode href content) then Some (LinkNode href content)
      else findInAST content checker)"
| "findInASTNode (ListNode ordered items) checker =
     (if checker (ListNode ordered items) then Some (ListNode ordered items)
      else findInItems items checker)"
| "findInASTNode (TableNode rows colIds) checker =
     (if checker (TableNode rows colIds) then Some (TableNode rows colIds)
      else findInRows rows checker)"
| "findInASTNode (BlockquoteNode content) checker =
     (if checker (BlockquoteNode content) then Some (BlockquoteNode content)
      else findInAST content checker)"
| "findInASTNode (SemanticHtmlNode htmlType content) checker =
     (if checker (SemanticHtmlNode htmlType content)
      then Some (SemanticHtmlNode htmlType content)
      else findInAST content checker)"
| "findInASTNode (TextNode t) checker =
     (if checker (TextNode t) then Some (TextNode t) else None)"
| "findInASTNode (BoldNode c) checker =
     (if checker (BoldNode c) then Some (BoldNode c) else None)"
| "findInASTNode (ItalicNode c) checker =
     (if checker (ItalicNode c) then Some (ItalicNode c) else None)"
| "findInASTNode (StrikethroughNode c) checker =
     (if checker (StrikethroughNode c) then Some (StrikethroughNode c) else None)"
| "findInASTNode (HeadingNode level c) checker =
     (if checker (HeadingNode level c) then Some (HeadingNode level c) else None)"
| "findInASTNode (ImageNode src alt) checker =
     (if checker (ImageNode src alt) then Some (ImageNode src alt) else None)"
| "findInASTNode (VideoNode src poster controls) checker =
     (if checker (VideoNode src poster controls) then Some (VideoNode src poster controls)
      else None)"
| "findInASTNode (CodeNode c language inline) checker =
     (if checker (CodeNode c language inline) then Some (CodeNode c language inline) else None)"
| "findInASTNode (CustomNode c) checker =
     (if checker (CustomNode c) then Some (CustomNode c) else None)"
| "findInASTNode (MetaDataNode m) checker =
     (if checker (MetaDataNode m) then Some (MetaDataNode m) else None)"
| "findInItems [] checker = None"
| "findInItems (item # items) checker =
     (case findInAST item checker of
        Some found \<Rightarrow> Some found
      | None \<Rightarrow> findInItems items checker)"
| "findInRows [] checker = None"
| "findInRows (row # rows) checker =
     (case findInCells row checker of
        Some found \<Rightarrow> Some found
      | None \<Rightarrow> findInRows rows checker)"
| "findInCells [] checker = None"
| "findInCells (cell # cells) checker =
     (case findInCell cell checker of
        Some found \<Rightarrow> Some found
      | None \<Rightarrow> findInCells cells checker)"
| "findInCell (TableCellNode c i cspan rspan) checker = findInContent c checker"
| "findInContent (Str s) checker = None"
| "findInContent (Nodes content) checker = findInAST content checker"

section \<open>markdownASTToString.ts: the front matter\<close>

fun isMeta :: "node \<Rightarrow> bool" where
  "isMeta (MetaDataNode _) = True"
| "isMeta _ = False"

definition entriesToString :: "host \<Rightarrow> string \<Rightarrow> (string \<times> string) list \<Rightarrow> string" where
  "entriesToString h ind entries =
     concat (map (\<lambda>(key, v). ind @ key @ '': '' @ JSON_stringify h v @ [CHR 0x0A]) entries)"

definition jsonLdToString :: "host \<Rightarrow> (string \<times> json) list \<Rightarrow> string" where
  "jsonLdToString h obj =
     (let jldType = (case map_of obj ''@type'' of
                       Some t \<Rightarrow> if t = Json ''null'' then None else Some t
                     | None \<Rightarrow> None);
          semanticData = filter (\<lambda>(key, v). key \<noteq> ''@context'' \<and> key \<noteq> ''@type'') obj
      in ''  '' @ (case jldType of Some t \<Rightarrow> String_of_json h t | None \<Rightarrow> ''(unknown type)'')
           @ '':'' @ [CHR 0x0A]
           @ concat (map (\<lambda>(key, v). ''    '' @ key @ '': '' @ (case v of Json t \<Rightarrow> t)
                                        @ [CHR 0x0A]) semanticData))"

definition markdownMetaASTToString :: "host \<Rightarrow> node list \<Rightarrow> options \<Rightarrow> string" where
  "markdownMetaASTToString h nodes options =
     (if emitFrontMatter options
      then
        (let markdownString =
               (case findInAST nodes isMeta of
                  Some (MetaDataNode m) \<Rightarrow>
                    (case standard m of Some es \<Rightarrow> entriesToString h [] es | None \<Rightarrow> [])
                    @ (case openGraph m of
                         Some es \<Rightarrow> ''openGraph:'' @ [CHR 0x0A] @ entriesToString h ''  '' es
                       | None \<Rightarrow> [])
                    @ (case twitter m of
                         Some es \<Rightarrow> ''twitter:'' @ [CHR 0x0A] @ entriesToString h ''  '' es
                       | None \<Rightarrow> [])
                    @ (case jsonLd m of
                         Some objs \<Rightarrow> ''schema:'' @ [CHR 0x0A] @ concat (map (jsonLdToString h) objs)
                       | None \<Rightarrow> [])
                | _ \<Rightarrow> [])
         in if length markdownString > 0
            then ''---'' @ [CHR 0x0A] @ markdownString @ ''---'' @ [CHR 0x0A, CHR 0x0A]
            else markdownString)
      else [])"

definition markdownASTToString ::
  "host \<Rightarrow> node list \<Rightarrow> options \<Rightarrow> nat \<Rightarrow> string option" where
  "markdownASTToString h nodes options indentLevel =
     (case markdownContentASTToString h nodes options indentLevel of
        None \<Rightarrow> None
      | Some content \<Rightarrow> Some (markdownMetaASTToString h nodes options @ content))"

section \<open>index.ts\<close>

text \<open>The error that the source throws itself, the \<open>TypeError\<close> of the host for a
  property of \<open>null\<close>, and the \<open>RangeError\<close> with which the host ends a loop that appends
  to a string without end.\<close>

datatype error = Error string | TypeError | RangeError

text \<open>
  \<open>convertElementToMarkdown\<close> returns the Markdown; with \<open>refifyUrls\<close> it also stores the URL
  map in the options of the caller, so the model returns the options with the string.
\<close>

definition convertElementToMarkdown ::
  "host \<Rightarrow> dnode \<Rightarrow> options \<Rightarrow> error + string \<times> options" where
  "convertElementToMarkdown h element options =
     (let ast = htmlToMarkdownAST h element options 0;
          (ast, options) =
            (if refifyUrls_flag options
             then
               (let (ast, urlMap) =
                      refifyUrls ast (case urlMap_opt options of Some m \<Rightarrow> m | None \<Rightarrow> [])
                in (ast, options\<lparr>urlMap_opt := Some urlMap\<rparr>))
             else (ast, options))
      in case markdownASTToString h ast options 0 of
           None \<Rightarrow> Inl RangeError
         | Some markdown \<Rightarrow> Inr (markdown, options))"

text \<open>\<open>element.querySelector(name)\<close> looks among the descendants of the element;
  \<open>doc.querySelector('head')?.innerHTML\<close> is tested for a non-empty string; \<open>doc.head\<close> is
  the first \<open>head\<close> child of the \<open>html\<close> element.\<close>

definition elementQuerySelector :: "dnode \<Rightarrow> string \<Rightarrow> dnode option" where
  "elementQuerySelector e name = List.find (\<lambda>d. lowerTag d = name) (descendants e)"

definition headHasContent :: "host \<Rightarrow> document \<Rightarrow> bool" where
  "headHasContent h doc =
     (case querySelector ([], documentElement doc) ''head'' of
        Some headElement \<Rightarrow> innerHTML h (snd headElement) \<noteq> []
      | None \<Rightarrow> False)"

definition documentHead :: "document \<Rightarrow> dnode option" where
  "documentHead doc =
     (if lowerTag (documentElement doc) = ''html''
      then List.find (\<lambda>c. isElement c \<and> lowerTag c = ''head'') (childNodes (documentElement doc))
      else None)"

text \<open>
  \<open>convertHtmlToMarkdown\<close>. A \<open>throw\<close> is the result \<open>Inl\<close>; a call that returns gives
  \<open>Inr\<close>. The parser is chosen, and its absence is detected, before \<open>parseFromString\<close>
  is applied: without a parser nothing of the rest of the body is evaluated.
\<close>

definition convertHtmlToMarkdown ::
  "host \<Rightarrow> string \<Rightarrow> options \<Rightarrow> error + string \<times> options" where
  "convertHtmlToMarkdown h html options =
     (case (case overrideDOMParser options of Some p \<Rightarrow> Some p | None \<Rightarrow> DOMParser h) of
        None \<Rightarrow>
          Inl (Error ''DOMParser is not available. Please provide an overrideDOMParser in options.'')
      | Some parser \<Rightarrow>
          (let doc = parseFromString parser html;
               element =
                 (if extractMainContent options
                  then
                    (let element = snd (findMainContent doc)
                     in if includeMetaData options \<noteq> None \<and> headHasContent h doc
                           \<and> elementQuerySelector element ''head'' = None
                        then
                          (case documentHead doc of
                             None \<Rightarrow> Inl TypeError
                           | Some headElement \<Rightarrow>
                               Inr (documentElement
                                      (parseFromString parser
                                         (''<html>'' @ outerHTML h headElement
                                          @ outerHTML h element))))
                        else Inr element)
                  else if includeMetaData options \<noteq> None \<and> headHasContent h doc
                  then Inr (documentElement doc)
                  else Inr (case body doc of Some b \<Rightarrow> snd b | None \<Rightarrow> documentElement doc))
           in case element of
                Inl e \<Rightarrow> Inl e
              | Inr element \<Rightarrow> convertElementToMarkdown h element options))"

section \<open>The columns of an emitted table row\<close>

text \<open>
  In the Markdown of a table row a \<open>|\<close> delimits a column unless a backslash escapes it.
  \<open>bars esc s\<close> counts the \<open>|\<close> of \<open>s\<close> that no backslash escapes, reading \<open>s\<close> from the
  left; \<open>esc\<close> tells whether a backslash before \<open>s\<close> escapes the first character of \<open>s\<close>, and
  \<open>pending esc s\<close> whether \<open>s\<close> ends with a backslash that escapes what follows.
\<close>

fun bars :: "bool \<Rightarrow> string \<Rightarrow> nat" where
  "bars esc [] = 0"
| "bars esc (c # cs) =
     (if esc then bars False cs
      else if c = CHR 0x5C then bars True cs
      else (if c = CHR ''|'' then 1 else 0) + bars False cs)"

fun pending :: "bool \<Rightarrow> string \<Rightarrow> bool" where
  "pending esc [] = esc"
| "pending esc (c # cs) = (if esc then pending False cs else pending (c = CHR 0x5C) cs)"

definition unescapedBars :: "string \<Rightarrow> nat" where
  "unescapedBars s = bars False s"

text \<open>The text that the renderer emits for one row of a table, from the \<open>|\<close> that opens
  its first column to the line feed after the \<open>|\<close> that closes its last.\<close>

definition emittedRow ::
  "host \<Rightarrow> options \<Rightarrow> nat \<Rightarrow> cell list list \<Rightarrow> cell list \<Rightarrow> string option" where
  "emittedRow h options indentLevel rows row =
     renderRows h options [row] (maxColumnsOf rows) indentLevel []"

text \<open>A colspan for which \<open>cell.colspan || 1\<close> is a count of columns: an absent one, 0 and
  \<open>NaN\<close>, which all count as one column, and the whole numbers from 1 on; and the natural
  number that \<open>cell.colspan || 1\<close> is for such a colspan.\<close>

definition validSpan :: "cell \<Rightarrow> bool" where
  "validSpan c \<longleftrightarrow>
     (case colspan c of
        None \<Rightarrow> True
      | Some (Num q) \<Rightarrow> 0 \<le> q \<and> q = of_int \<lfloor>q\<rfloor>
      | Some NaN \<Rightarrow> True
      | Some _ \<Rightarrow> False)"

definition natSpan :: "cell \<Rightarrow> nat" where
  "natSpan c = (case colspan c of Some (Num q) \<Rightarrow> if q = 0 then 1 else nat \<lfloor>q\<rfloor> | _ \<Rightarrow> 1)"

text \<open>The pieces of a row with such colspans: for each cell its content between \<open>|\<close> and a
  space and one empty column for each unit of colspan beyond the first, then the padding
  columns up to \<open>m\<close> columns and the closing \<open>|\<close> with the line feed.\<close>

definition cellText :: "host \<Rightarrow> options \<Rightarrow> nat \<Rightarrow> cell \<Rightarrow> string" where
  "cellText h options indentLevel c =
     ''| '' @ the (renderCell h options c indentLevel) @ '' ''
     @ concat (replicate (natSpan c - 1) ''| '')"

definition rowText :: "host \<Rightarrow> options \<Rightarrow> nat \<Rightarrow> nat \<Rightarrow> cell list \<Rightarrow> string" where
  "rowText h options indentLevel m row =
     concat (map (cellText h options indentLevel) row)
     @ concat (replicate (m - sum_list (map natSpan row)) ''|  '')
     @ ''|'' @ [CHR 0x0A]"

section \<open>The cases of the anchor translator\<close>

text \<open>The test of the anchor translator for a \<open>data:image\<close> href, and the href that it
  gives to the link otherwise.\<close>

definition hasDataImageHref :: "element \<Rightarrow> bool" where
  "hasDataImageHref linkNode \<longleftrightarrow>
     (case href_prop linkNode of Some hr \<Rightarrow> startsWith hr ''data:image'' | None \<Rightarrow> False)"

definition linkHref :: "options \<Rightarrow> element \<Rightarrow> string" where
  "linkHref options linkNode =
     (case href_prop linkNode of Some hr \<Rightarrow> stripWebsiteDomain options hr | None \<Rightarrow> ''#'')"

text \<open>
  The conditions under which \<open>processChild\<close> hands an element with the tag \<open>a\<close> to the
  anchor translator: no override of the element processing, the tag not excluded, and the
  element visible where invisible elements are excluded.
\<close>

definition reachesAnchorTranslator :: "options \<Rightarrow> element \<Rightarrow> bool" where
  "reachesAnchorTranslator options p \<longleftrightarrow>
     toLowerCase (tagName p) = ''a''
     \<and> overrideElementProcessing options = None
     \<and> (case excludeTagNames options of Some ts \<Rightarrow> ''a'' \<notin> set ts | None \<Rightarrow> True)
     \<and> (excludeInvisibleElements options \<longrightarrow> isElementVisible p)"

section \<open>Example documents\<close>

text \<open>An HTML element with a tag name, an id, classes, attributes and child nodes, laid
  out with a non-empty box, with no shadow root and no assigned nodes.\<close>

definition htmlElement ::
  "string \<Rightarrow> string \<Rightarrow> string list \<Rightarrow> (string \<times> string) list \<Rightarrow> dnode list \<Rightarrow> dnode" where
  "htmlElement t i c a cs =
     DomElement \<lparr>tagName = t, id_attr = i, classList = c, attributes = a, href_prop = None,
       src_prop = [], alt_prop = [], poster_prop = [], controls_prop = False,
       isHTMLElement = True, offsetWidth = 1, offsetHeight = 1, parentNodeName = None\<rparr>
       None [] cs"

text \<open>
  A document \<open><html><head></head><body><div class="content" data-main><article
  id="main-content"></article></div></body></html>\<close>: the \<open>div\<close> and the \<open>article\<close> inside it
  both reach the threshold.
\<close>

definition innerArticle :: dnode where
  "innerArticle = htmlElement ''ARTICLE'' ''main-content'' [] [] []"

definition outerDiv :: dnode where
  "outerDiv = htmlElement ''DIV'' [] [''content''] [(''data-main'', [])] [innerArticle]"

definition nestedBody :: dnode where
  "nestedBody = htmlElement ''BODY'' [] [] [] [outerDiv]"

definition nestedDocument :: document where
  "nestedDocument =
     \<lparr>documentElement = htmlElement ''HTML'' [] [] [] [htmlElement ''HEAD'' [] [] [] [], nestedBody]\<rparr>"

text \<open>A candidate is independent when no other candidate of the set contains it.\<close>

definition isIndependent :: "eref list \<Rightarrow> eref \<Rightarrow> bool" where
  "isIndependent candidates c \<longleftrightarrow>
     \<not> list_ex (\<lambda>d. fst d \<noteq> fst c \<and> contains d c) candidates"

text \<open>A host without a global \<open>DOMParser\<close>, with placeholders for the other services,
  and the options of a call without an options argument.\<close>

definition hostWithoutParser :: host where
  "hostWithoutParser =
     \<lparr>DOMParser = None, encodeURI = (\<lambda>s. s), JSON_stringify = (\<lambda>s. s),
      String_of_json = (\<lambda>j. []), Number_toString = (\<lambda>q. []), outerHTML = (\<lambda>d. []),
      innerHTML = (\<lambda>d. []),
      extractMetaData =
        (\<lambda>d m. \<lparr>standard = None, openGraph = None, twitter = None, jsonLd = None\<rparr>)\<rparr>"

definition noOptions :: options where
  "noOptions =
     \<lparr>websiteDomain = None, includeMetaData = None, excludeTagNames = None,
      excludeInvisibleElements = False, enableTableColumnTracking = False,
      overrideElementProcessing = None, processUnhandledElement = None,
      emitFrontMatter = False, overrideNodeRenderer = None, renderCustomNode = None,
      refifyUrls_flag = False, urlMap_opt = None, extractMainContent = False,
      overrideDOMParser = None\<rparr>"

text \<open>An anchor element with the given \<open>href\<close> and child nodes.\<close>

definition anchorProperties :: "string \<Rightarrow> element" where
  "anchorProperties hr =
     \<lparr>tagName = ''A'', id_attr = [], classList = [], attributes = [(''href'', hr)],
      href_prop = Some hr, src_prop = [], alt_prop = [], poster_prop = [],
      controls_prop = False, isHTMLElement = True, offsetWidth = 1, offsetHeight = 1,
      parentNodeName = Some ''DIV''\<rparr>"

definition anchorElement :: "string \<Rightarrow> dnode list \<Rightarrow> dnode" where
  "anchorElement hr cs = DomElement (anchorProperties hr) None [] cs"

text \<open>Documents for the anchor translator: a \<open>div\<close> around an anchor without children,
  around an anchor with white space only, around an anchor with a \<open>span\<close>, around the
  text \<open>a*b\<close> and an anchor with the same text, and around an anchor with a \<open>data:image\<close>
  href and white space; an anchor with an empty \<open>span\<close>;
  and a \<open>div\<close> with a heading that holds a link.\<close>

definition emptyAnchor :: dnode where
  "emptyAnchor = htmlElement ''DIV'' [] [] [] [anchorElement ''https://example.com/x'' []]"

definition blankAnchor :: dnode where
  "blankAnchor =
     htmlElement ''DIV'' [] [] [] [anchorElement ''https://example.com/x'' [DomText ''  '']]"

definition spanAnchor :: dnode where
  "spanAnchor =
     htmlElement ''DIV'' [] [] []
       [anchorElement ''https://example.com/x'' [htmlElement ''SPAN'' [] [] [] [DomText ''hi'']]]"


definition blankDataImageAnchor :: dnode where
  "blankDataImageAnchor =
     htmlElement ''DIV'' [] [] [] [anchorElement ''data:image/png;base64,AAA'' [DomText '' '']]"

definition emptySpanAnchor :: dnode where
  "emptySpanAnchor = anchorElement ''https://example.com/x'' [htmlElement ''SPAN'' [] [] [] []]"

definition headingWithLink :: dnode where
  "headingWithLink =
     htmlElement ''DIV'' [] [] []
       [htmlElement ''H1'' [] [] [] [anchorElement ''http://example.com/a/b/c/d'' [DomText ''x'']]]"

text \<open>A table of two rows: a cell of colspan 2 and a cell with a column id, then one
  cell.\<close>

definition exampleTable :: "cell list list" where
  "exampleTable =
     [[TableCellNode (Str ''a'') None (Some (Num 2)) None,
       TableCellNode (Nodes [TextNode ''b'']) (Some ''col-2'') None None],
      [TableCellNode (Str ''c'') None None None]]"

text \<open>A table \<open><table><tr><td><code>a|b</code></td></tr></table>\<close> in a \<open>div\<close>, the row of
  its AST, and a row of one cell with the colspan \<open>-1\<close>.\<close>

definition codeCellTable :: dnode where
  "codeCellTable =
     htmlElement ''DIV'' [] [] []
       [htmlElement ''TABLE'' [] [] []
          [htmlElement ''TR'' [] [] []
             [htmlElement ''TD'' [] [] [] [htmlElement ''CODE'' [] [] [] [DomText ''a|b'']]]]]"

definition codeCellRow :: "cell list" where
  "codeCellRow = [TableCellNode (Nodes [CodeNode ''a|b'' None True]) None None None]"

definition negativeSpanRow :: "cell list" where
  "negativeSpanRow = [TableCellNode (Str ''c'') None (Some (Num (- 1))) None]"

text \<open>An anchor with a \<open>b\<close> element around the text \<open>hi\<close>.\<close>

definition boldAnchor :: dnode where
  "boldAnchor =
     anchorElement ''https://example.com/x'' [htmlElement ''B'' [] [] [] [DomText ''hi'']]"

section \<open>Properties of escapeMarkdownCharacters\<close>

lemma replaceAll_append:
  "replaceAll m r (xs @ ys) = replaceAll m r xs @ replaceAll m r ys"
  by (induction xs) simp_all

lemma escape_pipeline_char:
  "replaceAll markdownSpecial (\<lambda>c. [CHR 0x5C, c])
     (replaceAll (\<lambda>c. c = CHR ''>'') (\<lambda>_. ''&gt;'')
       (replaceAll (\<lambda>c. c = CHR ''<'') (\<lambda>_. ''&lt;'')
         (replaceAll (\<lambda>c. c = CHR ''&'') (\<lambda>_. ''&amp;'') t)))
   = concat (map escapeChar t)"
proof (induction t)
  case Nil
  show ?case by simp
next
  case (Cons c cs)
  show ?case
    using Cons.IH
    by (simp add: replaceAll_append escapeChar_def markdownSpecial_def)
qed













text \<open>
  Claim C4. Inline-code text and text that is empty after trimming are returned unchanged.
  Any other text goes through the replacement of \<open>&\<close> by \<open>&amp;\<close>, then of \<open><\<close> by
  \<open>&lt;\<close>, then of \<open>>\<close> by \<open>&gt;\<close>, and last the prefixing of each of the twelve
  Markdown characters with a backslash. Because the ampersand goes first, the net effect
  is that every character of the input is expanded once, by \<open>escapeChar\<close>.
\<close>

theorem escapeMarkdownCharacters_steps:
  "escapeMarkdownCharacters t True = t
   \<and> (trim t = [] \<longrightarrow> escapeMarkdownCharacters t b = t)
   \<and> (trim t \<noteq> [] \<longrightarrow>
        escapeMarkdownCharacters t False =
          replaceAll markdownSpecial (\<lambda>c. [CHR 0x5C, c])
            (replaceAll (\<lambda>c. c = CHR ''>'') (\<lambda>_. ''&gt;'')
              (replaceAll (\<lambda>c. c = CHR ''<'') (\<lambda>_. ''&lt;'')
                (replaceAll (\<lambda>c. c = CHR ''&'') (\<lambda>_. ''&amp;'') t)))
        \<and> escapeMarkdownCharacters t False = concat (map escapeChar t))"
  by (simp add: escapeMarkdownCharacters_def escape_pipeline_char)

theorem escapeMarkdownCharacters_steps_witness:
  "trim ''a<b & c*d'' \<noteq> []
   \<and> escapeMarkdownCharacters ''a<b & c*d'' False = ''a&lt;b &amp; c'' @ [CHR 0x5C] @ ''*d''
   \<and> trim ''  '' = [] \<and> escapeMarkdownCharacters ''  '' False = ''  ''"
  using escapeMarkdownCharacters_steps[of "''a<b & c*d''"]
    escapeMarkdownCharacters_steps[of "''  ''" False]
  by (simp add: trim_def isWhitespace_def escapeChar_def markdownSpecial_def)

section \<open>Properties of the main-content locator\<close>

lemma fold_count:
  "fold (\<lambda>a s. if P a then s + 10 else s) xs (s::int) = s + 10 * int (length (filter P xs))"
  by (induction xs arbitrary: s) simp_all

lemmas score_defs =
  htmlElement_def highImpactAttributeScore_def highImpactAttributes_def
  hasHighImpactAttribute_def highImpactTags_def toLowerCase_def toLowerChar_def
  getElementsByTagName_def trim_def calculateLinkDensity_def hasAttribute_def getAttribute_def

lemma innerScore: "calculateScore innerArticle = 40"
  by (simp add: innerArticle_def score_defs)

lemma outerScore: "calculateScore outerDiv = 25"
  by (simp add: outerDiv_def innerArticle_def score_defs)

lemma bodyScore: "calculateScore nestedBody = 5"
  by (simp add: nestedBody_def outerDiv_def innerArticle_def score_defs)

lemma nested_candidates:
  "collectCandidates ([1], nestedBody) 20 = [([1, 0], outerDiv), ([1, 0, 0], innerArticle)]"
proof -
  have "collectCandidates ([1, 0, 0], innerArticle) 20 = [([1, 0, 0], innerArticle)]"
    using innerScore by (simp add: innerArticle_def htmlElement_def)
  then have "collectCandidates ([1, 0], outerDiv) 20
      = [([1, 0], outerDiv), ([1, 0, 0], innerArticle)]"
    using outerScore
    by (simp add: outerDiv_def htmlElement_def) (simp add: innerArticle_def htmlElement_def)
  then show ?thesis
    using bodyScore
    by (simp add: nestedBody_def htmlElement_def) (simp add: outerDiv_def htmlElement_def)
qed

lemma nested_sorted:
  "sortCandidates [([1, 0], outerDiv), ([1, 0, 0], innerArticle)]
     = [([1, 0, 0], innerArticle), ([1, 0], outerDiv)]"
  by (simp add: sortCandidates_def innerScore outerScore)

lemma nested_detect: "detectMainContent ([1], nestedBody) = ([1, 0, 0], innerArticle)"
  using nested_candidates nested_sorted
  by (simp add: detectMainContent_def Let_def bestStep_def containedInOther_def contains_def
      innerScore outerScore)

lemma nested_body: "body nestedDocument = Some ([1], nestedBody)"
  by (simp add: body_def nestedDocument_def nestedBody_def htmlElement_def toLowerCase_def
      toLowerChar_def)

lemma nested_no_main: "querySelector ([], documentElement nestedDocument) ''main'' = None"
  by (simp add: querySelector_def nestedDocument_def nestedBody_def htmlElement_def outerDiv_def
      innerArticle_def toLowerCase_def toLowerChar_def)

lemma nested_find: "findMainContent nestedDocument = ([1, 0, 0], innerArticle)"
  by (simp only: findMainContent_def nested_no_main nested_body nested_detect option.case)

lemma fold_bestStep_first:
  assumes "\<forall>i\<in>set is. calculateScore (snd (cs ! i)) \<le> calculateScore (snd b)"
  shows "fold (bestStep cs) is b = b"
  using assms by (induction "is") (simp_all add: bestStep_def)

lemma sortCandidates_first_max:
  assumes "i < length cs"
  shows "calculateScore (snd (sortCandidates cs ! i))
           \<le> calculateScore (snd (sortCandidates cs ! 0))"
proof -
  let ?f = "\<lambda>c. - calculateScore (snd c)"
  let ?s = "sortCandidates cs"
  have srt: "sorted (map ?f ?s)" by (simp add: sortCandidates_def)
  have len: "length ?s = length cs" by (simp add: sortCandidates_def)
  with assms have "map ?f ?s ! 0 \<le> map ?f ?s ! i"
    using srt by (intro sorted_nth_mono) simp_all
  moreover have "0 < length ?s" "i < length ?s" using assms len by auto
  ultimately show ?thesis by simp
qed

text \<open>
  Claim C1, on the code. In \<open>nestedDocument\<close> there is no \<open>main\<close> element, the candidates
  are the \<open>div\<close> (score 25) and the \<open>article\<close> inside it (score 40). The only candidate
  that no other candidate contains is the \<open>div\<close>; \<open>findMainContent\<close> returns the
  \<open>article\<close>, which the \<open>div\<close> contains.
\<close>

theorem findMainContent_returns_nested_candidate:
  "querySelector ([], documentElement nestedDocument) ''main'' = None
   \<and> body nestedDocument = Some ([1], nestedBody)
   \<and> collectCandidates ([1], nestedBody) 20 = [([1, 0], outerDiv), ([1, 0, 0], innerArticle)]
   \<and> isIndependent [([1, 0], outerDiv), ([1, 0, 0], innerArticle)] ([1, 0], outerDiv)
   \<and> \<not> isIndependent [([1, 0], outerDiv), ([1, 0, 0], innerArticle)] ([1, 0, 0], innerArticle)
   \<and> findMainContent nestedDocument = ([1, 0, 0], innerArticle)"
proof -
  have "isIndependent [([1, 0], outerDiv), ([1, 0, 0], innerArticle)] ([1, 0], outerDiv)"
    by (simp add: isIndependent_def contains_def)
  moreover have
    "\<not> isIndependent [([1, 0], outerDiv), ([1, 0, 0], innerArticle)] ([1, 0, 0], innerArticle)"
    by (simp add: isIndependent_def contains_def)
  ultimately show ?thesis
    using nested_no_main nested_body nested_candidates nested_find by simp
qed

text \<open>
  Claim C7, as stated: a match of the vocabulary adds 10 to the score, once. An element
  with the id \<open>main-content\<close> matches \<open>content\<close>, \<open>main\<close> and \<open>main-content\<close>, and the
  vocabulary check adds 30.
\<close>

theorem highImpactAttributeScore_not_single:
  "hasHighImpactAttribute (the (props innerArticle)) ''main-content''
   \<and> highImpactAttributeScore (the (props innerArticle)) 0 = 30
   \<and> calculateScore innerArticle = 40"
  using innerScore
  by (simp add: innerArticle_def htmlElement_def highImpactAttributeScore_def
      highImpactAttributes_def hasHighImpactAttribute_def)

text \<open>
  Claim C7, amended. The vocabulary check adds 10 for every word of the vocabulary that
  is a class of the element or occurs in its id: ten times the number of matching words.
\<close>

theorem highImpactAttributeScore_counts:
  "highImpactAttributeScore p score
     = score + 10 * int (length (filter (hasHighImpactAttribute p) highImpactAttributes))"
  by (simp add: highImpactAttributeScore_def fold_count)

theorem highImpactAttributeScore_counts_witness:
  "highImpactAttributeScore (the (props outerDiv)) 0 = 10"
  using highImpactAttributeScore_counts[of "the (props outerDiv)" 0]
  by (simp add: outerDiv_def htmlElement_def highImpactAttributes_def hasHighImpactAttribute_def)

text \<open>
  Claim C10. When some element of the subtree reaches the threshold, the loop of
  \<open>detectMainContent\<close> never replaces its first choice: no later candidate of the sorted
  list has a greater score than the first. The result is the first candidate of the
  sorted list, whatever contains it, and no candidate has a greater score.
\<close>

theorem detectMainContent_first_sorted:
  assumes "collectCandidates r 20 \<noteq> []"
  shows "detectMainContent r = sortCandidates (collectCandidates r 20) ! 0
    \<and> (\<forall>i\<in>{1..<length (collectCandidates r 20)}.
          \<not> calculateScore (snd (sortCandidates (collectCandidates r 20) ! i))
              > calculateScore (snd (sortCandidates (collectCandidates r 20) ! 0)))
    \<and> (\<forall>c\<in>set (collectCandidates r 20).
          calculateScore (snd c) \<le> calculateScore (snd (detectMainContent r)))"
proof -
  let ?cs = "collectCandidates r 20"
  let ?s = "sortCandidates ?cs"
  have len: "length ?s = length ?cs" by (simp add: sortCandidates_def)
  have le: "\<forall>i<length ?cs. calculateScore (snd (?s ! i)) \<le> calculateScore (snd (?s ! 0))"
    using sortCandidates_first_max by blast
  then have "fold (bestStep ?s) [1..<length ?s] (?s ! 0) = ?s ! 0"
    using len by (intro fold_bestStep_first) simp
  then have r: "detectMainContent r = ?s ! 0"
    using assms by (simp add: detectMainContent_def Let_def)
  have "\<forall>c\<in>set ?cs. calculateScore (snd c) \<le> calculateScore (snd (?s ! 0))"
  proof
    fix c assume "c \<in> set ?cs"
    then have "c \<in> set ?s" by (simp add: sortCandidates_def)
    then obtain i where "i < length ?s" "?s ! i = c" by (auto simp: in_set_conv_nth)
    then show "calculateScore (snd c) \<le> calculateScore (snd (?s ! 0))"
      using le len by auto
  qed
  with r le show ?thesis by (simp add: not_less)
qed

theorem detectMainContent_first_sorted_witness:
  "collectCandidates ([1], nestedBody) 20 \<noteq> []
   \<and> detectMainContent ([1], nestedBody) = ([1, 0, 0], innerArticle)
   \<and> calculateScore outerDiv \<le> calculateScore (snd (detectMainContent ([1], nestedBody)))"
  using detectMainContent_first_sorted[of "([1], nestedBody)"] nested_candidates nested_sorted
  by simp

section \<open>Properties of the table renderer\<close>

lemma bars_append: "bars e (xs @ ys) = bars e xs + bars (pending e xs) ys"
  by (induction xs arbitrary: e) auto

lemma pending_append: "pending e (xs @ ys) = pending (pending e xs) ys"
  by (induction xs arbitrary: e) auto

lemma bars_fillers: "bars False (concat (replicate k ''| '')) = k"
  by (induction k) auto

lemma pending_fillers: "pending False (concat (replicate k ''| '')) = False"
  by (induction k) auto

lemma bars_padding: "bars False (concat (replicate k ''|  '')) = k"
  by (induction k) auto

lemma pending_padding: "pending False (concat (replicate k ''|  '')) = False"
  by (induction k) auto

lemma fillLoop_nat:
  "fillLoop ms (Num (of_nat i)) (Num (of_nat k)) = Some (ms @ concat (replicate (k - i) ''| ''))"
proof (induction "k - i" arbitrary: i ms)
  case 0
  then show ?case by (subst fillLoop.simps) simp
next
  case (Suc n)
  then have lt: "i < k" and n: "n = k - Suc i" by auto
  have "fillLoop ms (Num (of_nat i)) (Num (of_nat k))
          = fillLoop (ms @ ''| '') (Num (of_nat (Suc i))) (Num (of_nat k))"
    using lt by (subst fillLoop.simps) (simp add: add.commute)
  also have "\<dots> = Some ((ms @ ''| '') @ concat (replicate (k - Suc i) ''| ''))"
    using n by (rule Suc.hyps(1))
  also have "k - i = Suc (k - Suc i)" using lt by simp
  then have "(ms @ ''| '') @ concat (replicate (k - Suc i) ''| '')
               = ms @ concat (replicate (k - i) ''| '')"
    by simp
  finally show ?case .
qed

lemma padLoop_nat:
  "padLoop ms (Num (of_nat i)) (Num (of_nat k)) = Some (ms @ concat (replicate (k - i) ''|  ''))"
proof (induction "k - i" arbitrary: i ms)
  case 0
  then show ?case by (subst padLoop.simps) simp
next
  case (Suc n)
  then have lt: "i < k" and n: "n = k - Suc i" by auto
  have "padLoop ms (Num (of_nat i)) (Num (of_nat k))
          = padLoop (ms @ ''|  '') (Num (of_nat (Suc i))) (Num (of_nat k))"
    using lt by (subst padLoop.simps) (simp add: add.commute)
  also have "\<dots> = Some ((ms @ ''|  '') @ concat (replicate (k - Suc i) ''|  ''))"
    using n by (rule Suc.hyps(1))
  also have "k - i = Suc (k - Suc i)" using lt by simp
  then have "(ms @ ''|  '') @ concat (replicate (k - Suc i) ''|  '')
               = ms @ concat (replicate (k - i) ''|  '')"
    by simp
  finally show ?case .
qed

lemma colspanOr1_valid:
  assumes "validSpan c"
  shows "colspanOr1 c = Num (of_nat (natSpan c))" and "1 \<le> natSpan c"
proof -
  show "colspanOr1 c = Num (of_nat (natSpan c))"
  proof (cases "colspan c")
    case None
    then show ?thesis by (simp add: colspanOr1_def natSpan_def)
  next
    case (Some v)
    show ?thesis
    proof (cases "v = NaN")
      case True
      with Some show ?thesis by (simp add: colspanOr1_def natSpan_def)
    next
      case False
      with Some assms obtain q where v: "v = Num q" and q: "0 \<le> q" "q = of_int \<lfloor>q\<rfloor>"
        by (cases v) (auto simp: validSpan_def)
      from q have "0 \<le> \<lfloor>q\<rfloor>" by simp
      then have "(of_nat (nat \<lfloor>q\<rfloor>) :: rat) = of_int \<lfloor>q\<rfloor>" by simp
      with q have "of_nat (nat \<lfloor>q\<rfloor>) = q" by simp
      with Some v show ?thesis by (simp add: colspanOr1_def natSpan_def)
    qed
  qed
  show "1 \<le> natSpan c"
  proof (cases "colspan c")
    case None
    then show ?thesis by (simp add: natSpan_def)
  next
    case (Some v)
    show ?thesis
    proof (cases "v = NaN")
      case True
      with Some show ?thesis by (simp add: natSpan_def)
    next
      case notNaN: False
      with Some assms obtain q where v: "v = Num q" and q: "0 \<le> q" "q = of_int \<lfloor>q\<rfloor>"
        by (cases v) (auto simp: validSpan_def)
      have ns: "natSpan c = (if q = 0 then 1 else nat \<lfloor>q\<rfloor>)"
        using Some v by (simp add: natSpan_def)
      show ?thesis
      proof (cases "q = 0")
        case True
        then show ?thesis using ns by simp
      next
        case False
        with q have "\<lfloor>q\<rfloor> \<noteq> 0" by auto
        moreover from q have "0 \<le> \<lfloor>q\<rfloor>" by simp
        ultimately have "1 \<le> nat \<lfloor>q\<rfloor>" by linarith
        with False ns show ?thesis by (simp only: if_False)
      qed
    qed
  qed
qed

lemma rowWidth_fold:
  "\<forall>c\<in>set row. validSpan c \<Longrightarrow>
     fold (\<lambda>c sum. numAdd sum (colspanOr1 c)) row (Num (of_nat a))
       = Num (of_nat (a + sum_list (map natSpan row)))"
proof (induction row arbitrary: a)
  case Nil
  then show ?case by simp
next
  case (Cons c row)
  then have "colspanOr1 c = Num (of_nat (natSpan c))" by (simp add: colspanOr1_valid)
  then have "numAdd (Num (of_nat a)) (colspanOr1 c) = Num (of_nat (a + natSpan c))" by simp
  with Cons show ?case by (simp add: add.assoc del: of_nat_add)
qed

lemma rowWidth_valid:
  "\<forall>c\<in>set row. validSpan c \<Longrightarrow> rowWidth row = Num (of_nat (sum_list (map natSpan row)))"
  using rowWidth_fold[of row 0] by (simp add: rowWidth_def)

lemma mathMax_fold:
  "fold (\<lambda>v m. if m = NaN \<or> v = NaN then NaN else if numLess m v then v else m)
     (map (\<lambda>n. Num (of_nat n)) ns) (Num (of_nat a)) = Num (of_nat (fold max ns a))"
  by (induction ns arbitrary: a) (auto simp: max_def)

lemma mathMax_nat:
  "ns \<noteq> [] \<Longrightarrow> mathMax (map (\<lambda>n. Num (of_nat n)) ns) = Num (of_nat (Max (set ns)))"
proof (cases ns)
  case Nil
  then show "ns \<noteq> [] \<Longrightarrow> ?thesis" by simp
next
  case (Cons n ns')
  have "Max (set (n # ns')) = fold max ns' n"
    by (rule Max.set_eq_fold)
  then show ?thesis
    using Cons mathMax_fold[of ns' n] by (simp add: mathMax_def)
qed

lemma maxColumnsOf_valid:
  assumes "rows \<noteq> []" "\<forall>row\<in>set rows. \<forall>c\<in>set row. validSpan c"
  shows "maxColumnsOf rows
           = Num (of_nat (Max (set (map (\<lambda>row. sum_list (map natSpan row)) rows))))"
proof -
  have eq: "map rowWidth rows
              = map (\<lambda>n. Num (of_nat n)) (map (\<lambda>row. sum_list (map natSpan row)) rows)"
    using assms(2) by (simp add: rowWidth_valid)
  have "mathMax (map rowWidth rows)
          = Num (of_nat (Max (set (map (\<lambda>row. sum_list (map natSpan row)) rows))))"
    unfolding eq using assms(1) by (intro mathMax_nat) simp
  then show ?thesis by (simp only: maxColumnsOf_def)
qed

lemma renderCells_valid:
  assumes "\<forall>c\<in>set row. validSpan c \<and> renderCell h options c indentLevel \<noteq> None"
  shows "renderCells h options row indentLevel (ms, Num (of_nat n))
           = Some (ms @ concat (map (cellText h options indentLevel) row),
                   Num (of_nat (n + sum_list (map natSpan row))))"
  using assms
proof (induction row arbitrary: ms n)
  case Nil
  then show ?case by simp
next
  case (Cons c row)
  then obtain t where t: "renderCell h options c indentLevel = Some t" by auto
  from Cons have "validSpan c" by simp
  then have w: "colspanOr1 c = Num (of_nat (natSpan c))" "1 \<le> natSpan c"
    by (rule colspanOr1_valid)+
  have f: "fillLoop (ms @ ''| '' @ t @ '' '') (Num 1) (colspanOr1 c)
             = Some ((ms @ ''| '' @ t @ '' '') @ concat (replicate (natSpan c - 1) ''| ''))"
    using fillLoop_nat[of "ms @ ''| '' @ t @ '' ''" 1 "natSpan c"] w by simp
  have a: "numAdd (Num (of_nat n)) (colspanOr1 c) = Num (of_nat (n + natSpan c))"
    using w by simp
  have "renderCells h options (c # row) indentLevel (ms, Num (of_nat n))
          = renderCells h options row indentLevel
              ((ms @ ''| '' @ t @ '' '') @ concat (replicate (natSpan c - 1) ''| ''),
               Num (of_nat (n + natSpan c)))"
    using t f a by (simp del: append_assoc of_nat_add)
  also have "\<dots> = Some (((ms @ ''| '' @ t @ '' '') @ concat (replicate (natSpan c - 1) ''| ''))
                           @ concat (map (cellText h options indentLevel) row),
                         Num (of_nat ((n + natSpan c) + sum_list (map natSpan row))))"
    using Cons by (simp del: of_nat_add)
  also have "\<dots> = Some (ms @ concat (map (cellText h options indentLevel) (c # row)),
                         Num (of_nat (n + sum_list (map natSpan (c # row)))))"
    using t by (simp add: cellText_def[of h options indentLevel c] add.assoc del: of_nat_add)
  finally show ?case .
qed

lemma renderRows_valid:
  assumes "\<forall>row\<in>set rs. \<forall>c\<in>set row. validSpan c \<and> renderCell h options c indentLevel \<noteq> None"
  shows "renderRows h options rs (Num (of_nat m)) indentLevel ms
           = Some (ms @ concat (map (rowText h options indentLevel m) rs))"
  using assms
proof (induction rs arbitrary: ms)
  case Nil
  then show ?case by simp
next
  case (Cons row rs)
  then have c: "renderCells h options row indentLevel (ms, Num 0)
             = Some (ms @ concat (map (cellText h options indentLevel) row),
                     Num (of_nat (sum_list (map natSpan row))))"
    using renderCells_valid[of row h options indentLevel ms 0] by simp
  have p: "padLoop (ms @ concat (map (cellText h options indentLevel) row))
             (Num (of_nat (sum_list (map natSpan row)))) (Num (of_nat m))
             = Some ((ms @ concat (map (cellText h options indentLevel) row))
                     @ concat (replicate (m - sum_list (map natSpan row)) ''|  ''))"
    by (rule padLoop_nat)
  have "renderRows h options (row # rs) (Num (of_nat m)) indentLevel ms
          = renderRows h options rs (Num (of_nat m)) indentLevel
              (ms @ rowText h options indentLevel m row)"
    using c p by (simp add: rowText_def)
  also have "\<dots> = Some ((ms @ rowText h options indentLevel m row)
                           @ concat (map (rowText h options indentLevel m) rs))"
    using Cons by simp
  finally show ?case by simp
qed

lemma bars_cellText:
  assumes "renderCell h options c indentLevel = Some t" "unescapedBars t = 0" "1 \<le> natSpan c"
  shows "bars False (cellText h options indentLevel c) = natSpan c"
    and "pending False (cellText h options indentLevel c) = False"
proof -
  have b: "bars False (t @ '' '') = 0" and p: "pending False (t @ '' '') = False"
    using assms(2) by (simp_all add: bars_append pending_append unescapedBars_def)
  have e: "cellText h options indentLevel c
             = ''| '' @ (t @ '' '') @ concat (replicate (natSpan c - 1) ''| '')"
    using assms(1) by (simp add: cellText_def)
  show "bars False (cellText h options indentLevel c) = natSpan c"
    unfolding e using b p assms(3) bars_append[of False "t @ '' ''"]
    by (simp add: bars_fillers del: append_assoc)
  show "pending False (cellText h options indentLevel c) = False"
    unfolding e using p pending_append[of False "t @ '' ''"]
    by (simp add: pending_fillers del: append_assoc)
qed

lemma bars_cells:
  assumes "\<forall>c\<in>set row. validSpan c
             \<and> (\<exists>t. renderCell h options c indentLevel = Some t \<and> unescapedBars t = 0)"
  shows "bars False (concat (map (cellText h options indentLevel) row))
           = sum_list (map natSpan row)
         \<and> pending False (concat (map (cellText h options indentLevel) row)) = False"
  using assms
proof (induction row)
  case Nil
  then show ?case by simp
next
  case (Cons c row)
  then obtain t where t: "renderCell h options c indentLevel = Some t" "unescapedBars t = 0"
    by auto
  from Cons have "validSpan c" by simp
  then have "1 \<le> natSpan c" by (rule colspanOr1_valid)
  with t have "bars False (cellText h options indentLevel c) = natSpan c"
    "pending False (cellText h options indentLevel c) = False"
    by (rule bars_cellText)+
  with Cons show ?case by (simp add: bars_append pending_append)
qed

lemma bars_rowText:
  assumes "\<forall>c\<in>set row. validSpan c
             \<and> (\<exists>t. renderCell h options c indentLevel = Some t \<and> unescapedBars t = 0)"
    and "sum_list (map natSpan row) \<le> m"
  shows "unescapedBars (rowText h options indentLevel m row) = m + 1"
proof -
  let ?cells = "concat (map (cellText h options indentLevel) row)"
  let ?pad = "concat (replicate (m - sum_list (map natSpan row)) ''|  '')"
  from assms(1) have c: "bars False ?cells = sum_list (map natSpan row)"
    "pending False ?cells = False"
    using bars_cells by blast+
  have "bars False (?cells @ ?pad @ ''|'' @ [CHR 0x0A])
          = sum_list (map natSpan row) + (m - sum_list (map natSpan row)) + 1"
    using c by (simp add: bars_append pending_append bars_padding pending_padding)
  with assms(2) show ?thesis by (simp add: unescapedBars_def rowText_def)
qed

text \<open>
  Claim C5, as stated: every emitted row has exactly \<open>maxColumns\<close> columns delimited by
  \<open>|\<close>. The translator turns \<open><table><tr><td><code>a|b</code></td></tr></table>\<close> into a
  table of one row with one cell that holds inline code, and inline code is emitted as it
  is: \<open>maxColumns\<close> is 1, and the emitted row, \<open>|\<close>, the code \<open>a|b\<close> between backquotes and
  \<open>|\<close>, holds three unescaped \<open>|\<close>, which delimit two columns. And for a row of one cell
  with the colspan \<open>-1\<close>, which the type of the node admits, \<open>maxColumns\<close> is \<open>-1\<close> while
  the emitted row has one column.
\<close>

theorem table_row_with_code_bar:
  "htmlToMarkdownAST hostWithoutParser codeCellTable noOptions 0
     = [TableNode [codeCellRow] (Some [])]
   \<and> maxColumnsOf [codeCellRow] = Num 1
   \<and> emittedRow hostWithoutParser noOptions 0 [codeCellRow] codeCellRow
       = Some (''| '' @ [CHR 0x60] @ ''a|b'' @ [CHR 0x60] @ '' |'' @ [CHR 0x0A])
   \<and> unescapedBars (''| '' @ [CHR 0x60] @ ''a|b'' @ [CHR 0x60] @ '' |'' @ [CHR 0x0A]) = 3
   \<and> markdownASTToString hostWithoutParser
        (htmlToMarkdownAST hostWithoutParser codeCellTable noOptions 0) noOptions 0
       = Some (''| '' @ [CHR 0x60] @ ''a|b'' @ [CHR 0x60] @ '' |'' @ [CHR 0x0A, CHR 0x0A])
   \<and> maxColumnsOf [negativeSpanRow] = Num (- 1)
   \<and> emittedRow hostWithoutParser noOptions 0 [negativeSpanRow] negativeSpanRow
       = Some (''| c |'' @ [CHR 0x0A])
   \<and> unescapedBars (''| c |'' @ [CHR 0x0A]) = 2
   \<and> markdownASTToString hostWithoutParser [TableNode [negativeSpanRow] None] noOptions 0
       = Some (''| c |'' @ [CHR 0x0A, CHR 0x0A])"
  by code_simp

text \<open>
  Claim C5, amended. Take a table node in which every colspan is absent, 0, \<open>NaN\<close> or a
  whole number from 1 on, in which the text of every cell (its rendered content with its
  comments) holds no \<open>|\<close> outside a backslash escape, and whose \<open>maxColumns\<close> is not above
  \<open>2^53\<close>, up to where the source counts exactly. Then the renderer appends the text of
  each row, in the order of the rows, and a line feed; \<open>maxColumns\<close> is a natural number
  \<open>m\<close> if there is a row; and the text emitted for every row holds exactly \<open>m + 1\<close>
  unescaped \<open>|\<close>: one opens each of the \<open>m\<close> columns of the row, and the last closes the
  row.
\<close>

theorem table_rows_have_maxColumns:
  assumes "\<forall>row\<in>set rows. \<forall>c\<in>set row.
             validSpan c
             \<and> (\<exists>t. renderCell h options c indentLevel = Some t \<and> unescapedBars t = 0)"
    and "\<not> numLess (Num 9007199254740992) (maxColumnsOf rows)"
  shows "\<exists>texts.
           list_all2
             (\<lambda>row text. emittedRow h options indentLevel rows row = Some text
                          \<and> (\<exists>m. maxColumnsOf rows = Num (of_nat m)
                                   \<and> unescapedBars text = m + 1))
             rows texts
           \<and> renderNode h options (TableNode rows colIds) indentLevel markdownString
               = Some (markdownString @ concat texts @ [CHR 0x0A])"
proof (cases "rows = []")
  case True
  then have "list_all2
             (\<lambda>row text. emittedRow h options indentLevel rows row = Some text
                          \<and> (\<exists>m. maxColumnsOf rows = Num (of_nat m)
                                   \<and> unescapedBars text = m + 1))
             rows []
           \<and> renderNode h options (TableNode rows colIds) indentLevel markdownString
               = Some (markdownString @ concat [] @ [CHR 0x0A])"
    by simp
  then show ?thesis by blast
next
  case False
  let ?m = "Max (set (map (\<lambda>row. sum_list (map natSpan row)) rows))"
  let ?texts = "map (rowText h options indentLevel ?m) rows"
  have valid: "\<forall>row\<in>set rows. \<forall>c\<in>set row. validSpan c" using assms(1) by blast
  have rend: "\<forall>row\<in>set rs. \<forall>c\<in>set row.
                validSpan c \<and> renderCell h options c indentLevel \<noteq> None"
    if "set rs \<subseteq> set rows" for rs
    using assms(1) that by force
  have m: "maxColumnsOf rows = Num (of_nat ?m)"
    using False valid by (rule maxColumnsOf_valid)
  have row: "emittedRow h options indentLevel rows row = Some (rowText h options indentLevel ?m row)
             \<and> (\<exists>m. maxColumnsOf rows = Num (of_nat m)
                     \<and> unescapedBars (rowText h options indentLevel ?m row) = m + 1)"
    if "row \<in> set rows" for row
  proof -
    have "renderRows h options [row] (Num (of_nat ?m)) indentLevel []
            = Some ([] @ concat (map (rowText h options indentLevel ?m) [row]))"
      using that by (intro renderRows_valid rend) simp
    then have e: "emittedRow h options indentLevel rows row
                    = Some (rowText h options indentLevel ?m row)"
      by (simp add: emittedRow_def m)
    have "sum_list (map natSpan row) \<le> ?m"
      using that by (intro Max_ge) auto
    with assms(1) that have "unescapedBars (rowText h options indentLevel ?m row) = ?m + 1"
      by (intro bars_rowText) blast+
    with e m show ?thesis by blast
  qed
  have l: "list_all2
             (\<lambda>row text. emittedRow h options indentLevel rows row = Some text
                          \<and> (\<exists>m. maxColumnsOf rows = Num (of_nat m)
                                   \<and> unescapedBars text = m + 1))
             rows ?texts"
    using row by (simp add: list_all2_conv_all_nth)
  have "renderRows h options rows (Num (of_nat ?m)) indentLevel markdownString
          = Some (markdownString @ concat ?texts)"
    by (intro renderRows_valid rend) simp
  then have t: "renderNode h options (TableNode rows colIds) indentLevel markdownString
                  = Some (markdownString @ concat ?texts @ [CHR 0x0A])"
    by (simp add: m)
  from l t show ?thesis by blast
qed

theorem table_rows_have_maxColumns_witness:
  "list_all (list_all validSpan) exampleTable
   \<and> map (map (\<lambda>c. map_option unescapedBars (renderCell hostWithoutParser noOptions c 0)))
         exampleTable = [[Some 0, Some 0], [Some 0]]
   \<and> \<not> numLess (Num 9007199254740992) (maxColumnsOf exampleTable)
   \<and> maxColumnsOf exampleTable = Num 3
   \<and> emittedRow hostWithoutParser noOptions 0 exampleTable (exampleTable ! 0)
       = Some (''| a <!-- colspan: 2 --> | | b <!-- col-2 --> |'' @ [CHR 0x0A])
   \<and> unescapedBars (''| a <!-- colspan: 2 --> | | b <!-- col-2 --> |'' @ [CHR 0x0A]) = 4
   \<and> emittedRow hostWithoutParser noOptions 0 exampleTable (exampleTable ! 1)
       = Some (''| c |  |  |'' @ [CHR 0x0A])
   \<and> unescapedBars (''| c |  |  |'' @ [CHR 0x0A]) = 4"
proof -
  let ?r0 = "''| a <!-- colspan: 2 --> | | b <!-- col-2 --> |'' @ [CHR 0x0A]"
  let ?r1 = "''| c |  |  |'' @ [CHR 0x0A]"
  have w: "list_all (list_all validSpan) exampleTable"
    by code_simp
  have c: "map (map (\<lambda>c. map_option unescapedBars (renderCell hostWithoutParser noOptions c 0)))
             exampleTable = [[Some 0, Some 0], [Some 0]]"
    by code_simp
  have b: "\<not> numLess (Num 9007199254740992) (maxColumnsOf exampleTable)"
    by code_simp
  have m: "maxColumnsOf exampleTable = Num 3"
    by code_simp
  have e0: "emittedRow hostWithoutParser noOptions 0 exampleTable (exampleTable ! 0) = Some ?r0"
    by code_simp
  have e1: "emittedRow hostWithoutParser noOptions 0 exampleTable (exampleTable ! 1) = Some ?r1"
    by code_simp
  have len: "length exampleTable = 2"
    by (simp add: exampleTable_def)
  have cells: "\<forall>row\<in>set exampleTable. \<forall>c\<in>set row.
                 validSpan c
                 \<and> (\<exists>t. renderCell hostWithoutParser noOptions c 0 = Some t \<and> unescapedBars t = 0)"
  proof (intro ballI)
    fix row c
    assume row: "row \<in> set exampleTable" and cell: "c \<in> set row"
    from w row cell have "validSpan c" by (auto simp: list_all_iff)
    moreover have "map_option unescapedBars (renderCell hostWithoutParser noOptions c 0) = Some 0"
    proof -
      from row cell have
        "map_option unescapedBars (renderCell hostWithoutParser noOptions c 0)
           \<in> set (concat (map (map (\<lambda>c. map_option unescapedBars
                                           (renderCell hostWithoutParser noOptions c 0)))
                             exampleTable))"
        by auto
      then show ?thesis unfolding c by simp
    qed
    ultimately show "validSpan c
        \<and> (\<exists>t. renderCell hostWithoutParser noOptions c 0 = Some t \<and> unescapedBars t = 0)"
      by auto
  qed
  obtain texts where
    l: "list_all2 (\<lambda>row text. emittedRow hostWithoutParser noOptions 0 exampleTable row
                                 = Some text
                               \<and> (\<exists>k. maxColumnsOf exampleTable = Num (of_nat k)
                                        \<and> unescapedBars text = k + 1)) exampleTable texts"
    using table_rows_have_maxColumns[OF cells b, where colIds = None and markdownString = "[]"]
    by blast
  have u: "unescapedBars s = 4"
    if "\<exists>k. maxColumnsOf exampleTable = Num (of_nat k) \<and> unescapedBars s = k + 1" for s
  proof -
    from that obtain k where k: "Num (of_nat k) = Num 3" "unescapedBars s = k + 1"
      using m by auto
    from k(1) have "k = 3" by simp
    with k(2) show ?thesis by simp
  qed
  from l len have u0: "emittedRow hostWithoutParser noOptions 0 exampleTable (exampleTable ! 0)
                          = Some (texts ! 0) \<and> unescapedBars (texts ! 0) = 4"
    and u1: "emittedRow hostWithoutParser noOptions 0 exampleTable (exampleTable ! 1)
               = Some (texts ! 1) \<and> unescapedBars (texts ! 1) = 4"
    using u by (auto simp: list_all2_conv_all_nth)
  from u0 e0 have "unescapedBars ?r0 = 4" by simp
  moreover from u1 e1 have "unescapedBars ?r1 = 4" by simp
  ultimately show ?thesis using w c b m e0 e1 by blast
qed

section \<open>Properties of refifyUrls\<close>

text \<open>
  Claim C2, on the code. The translator turns \<open><h1><a href="http://example.com/a/b/c/d">x</a></h1>\<close>
  into a heading node whose content holds a link node. \<open>processUrl\<close> replaces this URL by
  \<open>ref0\<close>, and \<open>refifyUrls\<close> does so for the link node on its own and inside a blockquote; for
  the heading node it returns the node and the map unchanged, because its \<open>switch\<close> has no
  case for a heading (nor for bold, italic and strikethrough nodes, whose content may be
  an array as well).
\<close>

theorem refifyUrls_skips_heading_content:
  "htmlToMarkdownAST hostWithoutParser headingWithLink noOptions 0
     = [HeadingNode 1 (Nodes [LinkNode ''http://example.com/a/b/c/d'' [TextNode ''x'']])]
   \<and> processUrl ''http://example.com/a/b/c/d'' [] = (''ref0'', [(''http://example.com/a/b/c/d'', ''ref0'')])
   \<and> refifyUrls [LinkNode ''http://example.com/a/b/c/d'' [TextNode ''x'']] []
       = ([LinkNode ''ref0'' [TextNode ''x'']], [(''http://example.com/a/b/c/d'', ''ref0'')])
   \<and> refifyUrls [BlockquoteNode [LinkNode ''http://example.com/a/b/c/d'' [TextNode ''x'']]] []
       = ([BlockquoteNode [LinkNode ''ref0'' [TextNode ''x'']]],
          [(''http://example.com/a/b/c/d'', ''ref0'')])
   \<and> refifyUrls [HeadingNode 1 (Nodes [LinkNode ''http://example.com/a/b/c/d'' [TextNode ''x'']])] []
       = ([HeadingNode 1 (Nodes [LinkNode ''http://example.com/a/b/c/d'' [TextNode ''x'']])], [])"
  by code_simp

section \<open>Properties of convertHtmlToMarkdown\<close>

lemma convertElementToMarkdown_no_Error:
  "convertElementToMarkdown h element options \<noteq> Inl (Error msg)"
  by (simp add: convertElementToMarkdown_def Let_def split: prod.splits option.splits)

text \<open>
  Claim C9. Without an \<open>overrideDOMParser\<close> option and without a \<open>DOMParser\<close> of the host,
  \<open>convertHtmlToMarkdown\<close> throws the error about the missing parser, whatever the HTML and
  the other options are: no document is parsed and no string is returned. It throws this
  error in no other case.
\<close>

theorem convertHtmlToMarkdown_without_parser:
  "(overrideDOMParser options = None \<and> DOMParser h = None \<longrightarrow>
      convertHtmlToMarkdown h html options
        = Inl (Error ''DOMParser is not available. Please provide an overrideDOMParser in options.''))
   \<and> (convertHtmlToMarkdown h html options
          = Inl (Error ''DOMParser is not available. Please provide an overrideDOMParser in options.'')
        \<longleftrightarrow> overrideDOMParser options = None \<and> DOMParser h = None)"
  by (auto simp: convertHtmlToMarkdown_def Let_def convertElementToMarkdown_no_Error
      split: option.splits sum.splits if_splits)

theorem convertHtmlToMarkdown_without_parser_witness:
  "overrideDOMParser noOptions = None \<and> DOMParser hostWithoutParser = None
   \<and> convertHtmlToMarkdown hostWithoutParser ''<p>x</p>'' noOptions
       = Inl (Error ''DOMParser is not available. Please provide an overrideDOMParser in options.'')"
  using convertHtmlToMarkdown_without_parser[of noOptions hostWithoutParser "''<p>x</p>''"]
  by (simp add: noOptions_def hostWithoutParser_def)

section \<open>Properties of the anchor translator and the link renderer\<close>

lemma toLowerCase_SLOT: "toLowerCase ''SLOT'' = ''slot''"
  by (simp add: toLowerCase_def toLowerChar_def)

lemma processChild_anchor:
  assumes "reachesAnchorTranslator options p"
  shows "processChild h options i (DomElement p sh asg cs)
           = translators_a options p cs (htmlToMarkdownAST h (DomElement p sh asg cs) options 0)"
proof -
  from assms have tag: "toLowerCase (tagName p) = ''a''"
    by (simp add: reachesAnchorTranslator_def)
  then have "tagName p \<noteq> ''SLOT''"
    using toLowerCase_SLOT by auto
  with assms tag show ?thesis
    by (auto simp: reachesAnchorTranslator_def Let_def simp del: htmlToMarkdownAST.simps
        split: option.splits)
qed

lemma translators_a_cases:
  "translators_a options p cs content =
     (if hasDataImageHref p then [LinkNode ''-'' content]
      else if list_all isTextNode cs
      then [LinkNode (linkHref options p) [TextNode (trim (concat (map textContent cs)))]]
      else if content = [] then []
      else [LinkNode (linkHref options p) content])"
  by (simp add: translators_a_def hasDataImageHref_def linkHref_def Let_def)

lemma single_text_iff:
  "(length c = 1 \<and> (case c ! 0 of TextNode _ \<Rightarrow> True | _ \<Rightarrow> False)) \<longleftrightarrow> (\<exists>t. c = [TextNode t])"
proof
  assume h: "length c = 1 \<and> (case c ! 0 of TextNode _ \<Rightarrow> True | _ \<Rightarrow> False)"
  then obtain n where c: "c = [n]" by (cases c) auto
  with h show "\<exists>t. c = [TextNode t]" by (cases n) auto
next
  assume "\<exists>t. c = [TextNode t]"
  then show "length c = 1 \<and> (case c ! 0 of TextNode _ \<Rightarrow> True | _ \<Rightarrow> False)" by auto
qed

lemma addSpace_Nil: "addSpace [] content = []"
  by (simp add: addSpace_def)

lemma renderNodes_single:
  "overrideNodeRenderer options = None \<Longrightarrow>
     renderNodes h options [n] j markdownString = renderNode h options n j markdownString"
  by (simp add: truthy_def split: option.splits)

lemma renderNode_link:
  assumes "renderNodes h options c j [] = Some s"
  shows "renderNode h options (LinkNode href c) j []
           = Some (if \<exists>t. c = [TextNode t]
                   then ''['' @ s @ '']('' @ encodeURI h href @ '')''
                   else ''<a href='' @ [CHR 0x22] @ href @ [CHR 0x22] @ ''>'' @ s @ ''</a>'')"
  using assms single_text_iff[of c]
  by (simp add: addSpace_Nil del: renderNodes.simps)

text \<open>
  Claim C3, as stated: an anchor with a child that is not a text node is rendered as an
  HTML \<open><a>\<close> tag. The anchor \<open><a href="https://example.com/x"><span>hi</span></a>\<close> has
  a \<open>span\<close> as its only child; its link node holds one text node, and the renderer emits
  \<open>[hi](https://example.com/x)\<close>. (And an
  anchor with a \<open>data:image\<close> href and white space as its only content, all of it text, is
  rendered as an \<open><a>\<close> tag with the href \<open>-\<close>.)
\<close>

theorem anchor_with_span_renders_compact:
  "\<not> list_all isTextNode [htmlElement ''SPAN'' [] [] [] [DomText ''hi'']]
   \<and> htmlToMarkdownAST hostWithoutParser spanAnchor noOptions 0
       = [LinkNode ''https://example.com/x'' [TextNode ''hi'']]
   \<and> markdownASTToString hostWithoutParser
        (htmlToMarkdownAST hostWithoutParser spanAnchor noOptions 0) noOptions 0
       = Some ''[hi](https://example.com/x)''
   \<and> list_all isTextNode [DomText '' '']
   \<and> markdownASTToString hostWithoutParser
        (htmlToMarkdownAST hostWithoutParser blankDataImageAnchor noOptions 0) noOptions 0
       = Some (''<a href='' @ [CHR 0x22] @ ''-'' @ [CHR 0x22] @ ''></a>'')"
  by code_simp

text \<open>
  Claim C3, amended. Take an element that \<open>processChild\<close> hands to the anchor translator
  (the tag \<open>a\<close>, no \<open>overrideElementProcessing\<close>, \<open>a\<close> not among the excluded tags, the
  element visible where invisible elements are excluded) and whose href is not a
  \<open>data:image\<close> URL, and render the nodes that it contributes as they are translated (no
  \<open>refifyUrls\<close> in between), on their own, at the indent level \<open>j\<close>, without an
  \<open>overrideNodeRenderer\<close>. Let \<open>href\<close> be the href of the element without a leading
  \<open>websiteDomain\<close>, or \<open>#\<close> if the element has none.

  \<^item> If all child nodes of the anchor are text nodes and their text is not empty after
    trimming, the output is \<open>[\<close>, the \<open>2 * j\<close> spaces of the indent, the trimmed text, \<open>](\<close>,
    \<open>encodeURI(href)\<close> and \<open>)\<close>.

  \<^item> If a child node is not a text node and the translated content of the anchor is not
    empty, the anchor contributes one link node with \<open>href\<close> and this content, and when
    the content renders to the string \<open>s\<close>, the output is the compact \<open>[s](encodeURI(href))\<close>
    if the content is exactly one text node and \<open><a href="href">s</a>\<close> otherwise.

  Nothing is said of an anchor with a \<open>data:image\<close> href, of an anchor whose child nodes
  are text nodes without text, and of an anchor with a child that is not a text node and
  with an empty translated content.
\<close>

theorem anchor_link_rendering:
  assumes "reachesAnchorTranslator options p" "\<not> hasDataImageHref p"
    "overrideNodeRenderer options = None"
  shows
    "(list_all isTextNode cs \<and> trim (concat (map textContent cs)) \<noteq> [] \<longrightarrow>
        renderNodes h options (processChild h options i (DomElement p sh asg cs)) j []
          = Some (''['' @ indentOf j @ trim (concat (map textContent cs)) @ '']('' @
                  encodeURI h (linkHref options p) @ '')''))
     \<and> (\<not> list_all isTextNode cs
          \<and> htmlToMarkdownAST h (DomElement p sh asg cs) options 0 \<noteq> [] \<longrightarrow>
          processChild h options i (DomElement p sh asg cs)
            = [LinkNode (linkHref options p) (htmlToMarkdownAST h (DomElement p sh asg cs) options 0)]
          \<and> (\<forall>s. renderNodes h options (htmlToMarkdownAST h (DomElement p sh asg cs) options 0) j []
                    = Some s \<longrightarrow>
                  renderNodes h options (processChild h options i (DomElement p sh asg cs)) j []
                    = Some (if \<exists>t. htmlToMarkdownAST h (DomElement p sh asg cs) options 0
                                      = [TextNode t]
                            then ''['' @ s @ '']('' @ encodeURI h (linkHref options p) @ '')''
                            else ''<a href='' @ [CHR 0x22] @ linkHref options p @ [CHR 0x22]
                                   @ ''>'' @ s @ ''</a>'')))"
proof -
  let ?e = "DomElement p sh asg cs"
  let ?out = "processChild h options i ?e"
  let ?content = "htmlToMarkdownAST h ?e options 0"
  have out: "?out = translators_a options p cs ?content"
    using assms(1) by (rule processChild_anchor)
  have single: "renderNodes h options [n] j [] = renderNode h options n j []" for n
    using assms(3) by (rule renderNodes_single)
  have a: "renderNodes h options ?out j []
             = Some (''['' @ indentOf j @ trim (concat (map textContent cs)) @ '']('' @
                     encodeURI h (linkHref options p) @ '')'')"
    if "list_all isTextNode cs"
  proof -
    let ?t = "trim (concat (map textContent cs))"
    have "?out = [LinkNode (linkHref options p) [TextNode ?t]]"
      unfolding out translators_a_cases using that assms(2) by simp
    moreover have "renderNodes h options [TextNode ?t] j [] = Some (indentOf j @ ?t)"
      by (simp add: single addSpace_Nil del: renderNodes.simps)
    then have "renderNode h options (LinkNode (linkHref options p) [TextNode ?t]) j []
                 = Some (''['' @ (indentOf j @ ?t) @ '']('' @ encodeURI h (linkHref options p)
                         @ '')'')"
      using renderNode_link[of h options "[TextNode ?t]" j "indentOf j @ ?t" "linkHref options p"]
      by simp
    ultimately show ?thesis by (simp add: single del: renderNodes.simps renderNode.simps)
  qed
  have b: "?out = [LinkNode (linkHref options p) ?content]"
    if "\<not> list_all isTextNode cs" "?content \<noteq> []"
    unfolding out translators_a_cases using that assms(2) by simp
  have c: "renderNodes h options ?out j []
             = Some (if \<exists>t. ?content = [TextNode t]
                     then ''['' @ s @ '']('' @ encodeURI h (linkHref options p) @ '')''
                     else ''<a href='' @ [CHR 0x22] @ linkHref options p @ [CHR 0x22]
                            @ ''>'' @ s @ ''</a>'')"
    if "\<not> list_all isTextNode cs" "?content \<noteq> []"
      "renderNodes h options ?content j [] = Some s" for s
    unfolding b[OF that(1,2)] single using that(3) by (rule renderNode_link)
  from a b c show ?thesis by blast
qed

theorem anchor_link_rendering_witness:
  "reachesAnchorTranslator noOptions (anchorProperties ''https://example.com/x'')
   \<and> \<not> hasDataImageHref (anchorProperties ''https://example.com/x'')
   \<and> overrideNodeRenderer noOptions = None
   \<and> list_all isTextNode [DomText ''hi'']
   \<and> trim (concat (map textContent [DomText ''hi''])) \<noteq> []
   \<and> renderNodes hostWithoutParser noOptions
         (processChild hostWithoutParser noOptions 0
            (anchorElement ''https://example.com/x'' [DomText ''hi''])) 1 []
       = Some ''[  hi](https://example.com/x)''
   \<and> \<not> list_all isTextNode [htmlElement ''B'' [] [] [] [DomText ''hi'']]
   \<and> htmlToMarkdownAST hostWithoutParser boldAnchor noOptions 0
       = [BoldNode (Nodes [TextNode ''hi''])]
   \<and> processChild hostWithoutParser noOptions 0 boldAnchor
       = [LinkNode ''https://example.com/x'' [BoldNode (Nodes [TextNode ''hi''])]]
   \<and> renderNodes hostWithoutParser noOptions
         (processChild hostWithoutParser noOptions 0 boldAnchor) 0 []
       = Some (''<a href='' @ [CHR 0x22] @ ''https://example.com/x'' @ [CHR 0x22] @ ''>**hi**</a>'')"
proof -
  let ?p = "anchorProperties ''https://example.com/x''"
  let ?b = "[htmlElement ''B'' [] [] [] [DomText ''hi'']]"
  have r: "reachesAnchorTranslator noOptions ?p"
    by code_simp
  have d: "\<not> hasDataImageHref ?p"
    by code_simp
  have n: "overrideNodeRenderer noOptions = None"
    by (simp add: noOptions_def)
  have t: "list_all isTextNode [DomText ''hi'']"
    by simp
  have t': "trim (concat (map textContent [DomText ''hi''])) \<noteq> []"
    by code_simp
  have e: "''['' @ indentOf 1 @ trim (concat (map textContent [DomText ''hi''])) @ '']('' @
           encodeURI hostWithoutParser (linkHref noOptions ?p) @ '')''
             = ''[  hi](https://example.com/x)''"
    by code_simp
  have nt: "\<not> list_all isTextNode ?b"
    by (simp add: htmlElement_def)
  have bc: "htmlToMarkdownAST hostWithoutParser boldAnchor noOptions 0
              = [BoldNode (Nodes [TextNode ''hi''])]"
    by code_simp
  have br: "renderNodes hostWithoutParser noOptions [BoldNode (Nodes [TextNode ''hi''])] 0 []
              = Some ''**hi**''"
    by code_simp
  have lh: "linkHref noOptions ?p = ''https://example.com/x''"
    by code_simp
  have eu: "encodeURI hostWithoutParser = (\<lambda>s. s)"
    by (simp add: hostWithoutParser_def)
  have first: "renderNodes hostWithoutParser noOptions
         (processChild hostWithoutParser noOptions 0
            (anchorElement ''https://example.com/x'' [DomText ''hi''])) 1 []
       = Some ''[  hi](https://example.com/x)''"
    using anchor_link_rendering[OF r d n, where cs = "[DomText ''hi'']" and h = hostWithoutParser
        and i = 0 and sh = None and asg = "[]" and j = 1]
      t t' e
    by (simp add: anchorElement_def del: processChild.simps renderNodes.simps)
  have E: "boldAnchor = DomElement ?p None [] ?b"
    by (simp add: boldAnchor_def anchorElement_def)
  note th = anchor_link_rendering[OF r d n, where cs = ?b and h = hostWithoutParser
      and i = 0 and sh = None and asg = "[]" and j = 0, folded E]
  have prem: "\<not> list_all isTextNode ?b
              \<and> htmlToMarkdownAST hostWithoutParser boldAnchor noOptions 0 \<noteq> []"
    using nt bc by simp
  from th[THEN conjunct2, rule_format, OF prem]
  have link: "processChild hostWithoutParser noOptions 0 boldAnchor
                = [LinkNode (linkHref noOptions ?p)
                     (htmlToMarkdownAST hostWithoutParser boldAnchor noOptions 0)]"
    and rendering: "\<And>s. renderNodes hostWithoutParser noOptions
                 (htmlToMarkdownAST hostWithoutParser boldAnchor noOptions 0) 0 [] = Some s \<Longrightarrow>
               renderNodes hostWithoutParser noOptions
                 (processChild hostWithoutParser noOptions 0 boldAnchor) 0 []
                 = Some (if \<exists>t. htmlToMarkdownAST hostWithoutParser boldAnchor noOptions 0
                                   = [TextNode t]
                         then ''['' @ s @ '']('' @ encodeURI hostWithoutParser (linkHref noOptions ?p)
                                @ '')''
                         else ''<a href='' @ [CHR 0x22] @ linkHref noOptions ?p @ [CHR 0x22]
                                @ ''>'' @ s @ ''</a>'')"
    by blast+
  have second: "processChild hostWithoutParser noOptions 0 boldAnchor
       = [LinkNode ''https://example.com/x'' [BoldNode (Nodes [TextNode ''hi''])]]"
    using link unfolding bc lh .
  have third: "renderNodes hostWithoutParser noOptions
         (processChild hostWithoutParser noOptions 0 boldAnchor) 0 []
       = Some (''<a href='' @ [CHR 0x22] @ ''https://example.com/x'' @ [CHR 0x22] @ ''>**hi**</a>'')"
    using rendering[of "''**hi**''"] br unfolding bc lh by simp
  from r d n t t' first nt bc second third show ?thesis by blast
qed

text \<open>
  Claim C6, on the code. An anchor without child nodes and an anchor with white space only
  each contribute a link node whose content is one text node with the empty string, which
  is rendered as \<open>[](https://example.com/x)\<close>; and with a \<open>data:image\<close> href such an anchor
  contributes a link node with an empty content. The translator tests for an empty content
  only where it translates the children of the anchor: an anchor with an empty \<open>span\<close>
  contributes no node.
\<close>

theorem childless_anchor_contributes_link:
  "htmlToMarkdownAST hostWithoutParser emptyAnchor noOptions 0
     = [LinkNode ''https://example.com/x'' [TextNode []]]
   \<and> htmlToMarkdownAST hostWithoutParser blankAnchor noOptions 0
       = [LinkNode ''https://example.com/x'' [TextNode []]]
   \<and> htmlToMarkdownAST hostWithoutParser blankDataImageAnchor noOptions 0 = [LinkNode ''-'' []]
   \<and> markdownASTToString hostWithoutParser
        (htmlToMarkdownAST hostWithoutParser emptyAnchor noOptions 0) noOptions 0
       = Some ''[](https://example.com/x)''
   \<and> processChild hostWithoutParser noOptions 0 emptySpanAnchor = []"
  by code_simp

section \<open>Escaping twice\<close>





end
